theory Spec2Isabelle
  imports Complex_Main "HOL-Library.Finite_Map" "HOL-Library.AList" "HOL-Library.Sublist"
begin

section \<open>Python values, exceptions and control flow\<close>

text \<open>
  The two source files are \<^verbatim>\<open>lcserve/backend/langchain_helper.py\<close> (the tracing and
  streaming callback handlers and the builtins interception scope) and
  \<^verbatim>\<open>lcserve/__main__.py\<close> (the command line). Both are Python; every effect of the code
  is made explicit here as a function from a state to an outcome and a new state.

  A value of type \<open>pyval\<close> is a Python value as it appears in the \<^verbatim>\<open>Dict[str, Any]\<close>
  arguments of the callbacks. \<open>PObject\<close> stands for any object that the standard JSON
  encoder refuses (a document, a client handle, ...).
\<close>

datatype pyval =
    PNone
  | PBool bool
  | PInt int
  | PStr string
  | PList "pyval list"
  | PDict "(string \<times> pyval) list"
  | PObject string

text \<open>
  The exceptions that the modelled code can meet. \<open>BadParameter\<close> is click's parameter
  error with its message; the two configuration errors carry the offending value as the
  source reads it back (\<^verbatim>\<open>e.instance\<close>, \<^verbatim>\<open>e.min\<close>).
\<close>

datatype yaml_scalar = YInt int | YStr string

datatype exn =
    AttributeError
  | KeyError
  | TypeError
  | ValidationError
  | BadParameter string
  | InvalidInstanceError string
  | InvalidAutoscaleMinError yaml_scalar
  | OtherError string

text \<open>
  A procedure runs on a state and ends normally (\<open>None\<close>) or with a pending exception
  (\<open>Some e\<close>); the state changes made before a raise stay made. An expression that can
  raise has type \<open>exn + 'a\<close>.
\<close>

type_synonym 's proc = "'s \<Rightarrow> exn option \<times> 's"

definition effect :: "('s \<Rightarrow> 's) \<Rightarrow> 's proc" where
  "effect f s = (None, f s)"

definition then_do :: "'s proc \<Rightarrow> 's proc \<Rightarrow> 's proc" where
  "then_do p q s = (case p s of (None, s') \<Rightarrow> q s' | (Some e, s') \<Rightarrow> (Some e, s'))"

definition bind_read :: "('s \<Rightarrow> exn + 'a) \<Rightarrow> ('a \<Rightarrow> 's proc) \<Rightarrow> 's proc" where
  "bind_read rd k s = (case rd s of Inl e \<Rightarrow> (Some e, s) | Inr a \<Rightarrow> k a s)"

definition eval_then :: "exn + 'a \<Rightarrow> ('a \<Rightarrow> 's proc) \<Rightarrow> 's proc" where
  "eval_then v k = bind_read (\<lambda>_. v) k"

text \<open>\<^verbatim>\<open>try: body  except Exception: handler\<close> and \<^verbatim>\<open>try: body  finally: final\<close>.\<close>

definition try_except :: "'s proc \<Rightarrow> (exn \<Rightarrow> 's proc) \<Rightarrow> 's proc" where
  "try_except body handler s =
     (case body s of (None, s') \<Rightarrow> (None, s') | (Some e, s') \<Rightarrow> handler e s')"

definition try_finally :: "'s proc \<Rightarrow> 's proc \<Rightarrow> 's proc" where
  "try_finally body final s =
     (case body s of (r, s') \<Rightarrow>
        (case final s' of (None, s'') \<Rightarrow> (r, s'') | (Some e, s'') \<Rightarrow> (Some e, s'')))"

text \<open>
  An \<^verbatim>\<open>async def\<close> returns a coroutine object: nothing runs until it is awaited, and
  awaiting it runs the body to its end.
\<close>

datatype ('s, 'a) coroutine = Coroutine "'s \<Rightarrow> 'a \<times> 's"

fun await :: "('s, 'a) coroutine \<Rightarrow> 's \<Rightarrow> 'a \<times> 's" where
  "await (Coroutine body) s = body s"

text \<open>\<^verbatim>\<open>sep.join(items)\<close> on strings; it raises \<^verbatim>\<open>TypeError\<close> on an item that is not a string.\<close>

fun join_str :: "string \<Rightarrow> string list \<Rightarrow> string" where
  "join_str sep [] = []"
| "join_str sep [x] = x"
| "join_str sep (x # y # ys) = x @ sep @ join_str sep (y # ys)"

fun str_items :: "string option list \<Rightarrow> exn + string list" where
  "str_items [] = Inr []"
| "str_items (None # xs) = Inl TypeError"
| "str_items (Some s # xs) = (case str_items xs of Inl e \<Rightarrow> Inl e | Inr ys \<Rightarrow> Inr (s # ys))"

definition py_join :: "string \<Rightarrow> string option list \<Rightarrow> exn + string" where
  "py_join sep xs = (case str_items xs of Inl e \<Rightarrow> Inl e | Inr ys \<Rightarrow> Inr (join_str sep ys))"

text \<open>
  \<^verbatim>\<open>json.dumps\<close>: it raises \<^verbatim>\<open>TypeError\<close> on a value that holds an object it cannot
  encode. The text it returns is kept as \<open>JsonText v\<close>, the encoding of \<open>v\<close>; the
  character-level format of the standard encoder is not reproduced.
\<close>

fun json_serializable :: "pyval \<Rightarrow> bool" where
  "json_serializable (PList xs) = list_all json_serializable xs"
| "json_serializable (PDict kvs) = list_all json_serializable (map snd kvs)"
| "json_serializable (PObject _) = False"
| "json_serializable _ = True"

datatype json_text = JsonText pyval

definition json_dumps :: "pyval \<Rightarrow> exn + json_text" where
  "json_dumps v = (if json_serializable v then Inr (JsonText v) else Inl TypeError)"

text \<open>
  \<^verbatim>\<open>round(x, ndigits)\<close>. On an \<^verbatim>\<open>int\<close> with \<^verbatim>\<open>ndigits >= 0\<close> it returns the integer itself.
  On a float it rounds half to even at the given decimal; the float is taken here as the
  rational number it denotes, so binary representation error is outside the model.
\<close>

definition py_round_int :: "int \<Rightarrow> nat \<Rightarrow> int" where
  "py_round_int n ndigits = n"

definition round_half_even :: "rat \<Rightarrow> int" where
  "round_half_even x =
     (let f = \<lfloor>x\<rfloor>; d = x - of_int f
      in if d < 1 / 2 then f else if 1 / 2 < d then f + 1 else if even f then f else f + 1)"

definition py_round :: "rat \<Rightarrow> nat \<Rightarrow> rat" where
  "py_round x ndigits = of_int (round_half_even (x * 10 ^ ndigits)) / 10 ^ ndigits"

section \<open>The tracing callback handlers\<close>

subsection \<open>Spans, the span registry and the tracing log\<close>

text \<open>
  A span of the tracing backend: its name, its context (trace and span identifier), the
  attributes set on it, the events added to it, and whether \<^verbatim>\<open>end()\<close> has been called.
  Spans are objects: the registry and the handlers hold references to them, and the store
  \<open>spans\<close> of the world maps each reference to the object's current state.
\<close>

type_synonym run_id = nat
type_synonym span_ref = nat

datatype attr_val =
    VStr string
  | VInt int
  | VStrList "string list"
  | VJson json_text
  | VVal pyval

record span_context =
  trace_id :: nat
  span_id :: nat

record Span =
  span_name :: string
  span_ctx :: span_context
  attributes :: "(string \<times> attr_val) list"
  events :: "(string \<times> (string \<times> attr_val) list) list"
  ended :: bool

text \<open>The dataclass \<^verbatim>\<open>TraceInfo\<close>, with its defaults filled in by the callers below.\<close>

record TraceInfo =
  trace :: nat
  span :: nat
  action :: string
  prompts :: "string list option"
  outputs :: string
  tokens :: "int option"
  cost :: "rat option"

text \<open>
  A record of the \<^verbatim>\<open>"tracing"\<close> logger: \<^verbatim>\<open>logger.info(json.dumps(trace_info.__dict__))\<close>
  is kept as the record that was encoded, \<^verbatim>\<open>logger.error(msg, exc_info=True)\<close> as the
  message with the exception being handled.
\<close>

datatype log_record = LogInfo TraceInfo | LogError string exn

text \<open>
  The process-wide state the handlers act on: the module-level dict \<^verbatim>\<open>_span_map\<close>, the
  span objects, the counter the backend draws fresh span references from, and what the
  tracing logger has emitted.
\<close>

record world =
  span_map :: "(run_id, span_ref) fmap"
  spans :: "span_ref \<Rightarrow> Span"
  next_span :: span_ref
  tracing_log :: "log_record list"

text \<open>
  The fields of a handler that the code reads: \<^verbatim>\<open>self.tracer\<close> (\<open>None\<close> when tracing is
  off), the context of \<^verbatim>\<open>self.parent_span\<close>, and the two counters that \<^verbatim>\<open>__init__\<close> sets
  to 0 and that the token-accounting base class of the OpenAI variant updates.
\<close>

datatype Tracer = Tracer string

record handler =
  tracer :: "Tracer option"
  parent_span :: span_context
  total_tokens :: int
  total_cost :: rat

definition upd_span :: "span_ref \<Rightarrow> (Span \<Rightarrow> Span) \<Rightarrow> world \<Rightarrow> world" where
  "upd_span r f w = w\<lparr>spans := (spans w)(r := f (spans w r))\<rparr>"

text \<open>
  The span operations. The receiver is what \<^verbatim>\<open>_current_span\<close> returned, so it can be
  \<^verbatim>\<open>None\<close>, and a method call on \<^verbatim>\<open>None\<close> raises \<^verbatim>\<open>AttributeError\<close>.
  \<^verbatim>\<open>set_attribute\<close> overwrites an attribute of the same key.
\<close>

definition set_attribute :: "span_ref option \<Rightarrow> string \<Rightarrow> attr_val \<Rightarrow> world proc" where
  "set_attribute sp k v w =
     (case sp of
        None \<Rightarrow> (Some AttributeError, w)
      | Some r \<Rightarrow> (None, upd_span r (\<lambda>x. x\<lparr>attributes := AList.update k v (attributes x)\<rparr>) w))"

definition add_event :: "span_ref option \<Rightarrow> string \<Rightarrow> (string \<times> attr_val) list \<Rightarrow> world proc" where
  "add_event sp name attrs w =
     (case sp of
        None \<Rightarrow> (Some AttributeError, w)
      | Some r \<Rightarrow> (None, upd_span r (\<lambda>x. x\<lparr>events := events x @ [(name, attrs)]\<rparr>) w))"

definition get_span_context :: "span_ref option \<Rightarrow> world \<Rightarrow> exn + span_context" where
  "get_span_context sp w =
     (case sp of None \<Rightarrow> Inl AttributeError | Some r \<Rightarrow> Inr (span_ctx (spans w r)))"

definition span_end :: "span_ref \<Rightarrow> world \<Rightarrow> world" where
  "span_end r w = upd_span r (\<lambda>x. x\<lparr>ended := True\<rparr>) w"

text \<open>
  \<^verbatim>\<open>tracer.start_as_current_span(name, context=set_span_in_context(parent), end_on_exit=False)\<close>:
  a new span object, in the parent's trace, with a span identifier of its own (here its
  reference), not ended when the \<^verbatim>\<open>with\<close> block is left. That the block also makes the
  span the ambient current span until it is left has no effect on what follows and is not
  modelled.
\<close>

definition start_as_current_span :: "Tracer \<Rightarrow> string \<Rightarrow> span_context \<Rightarrow> world \<Rightarrow> span_ref \<times> world" where
  "start_as_current_span tr name parent w =
     (let r = next_span w
      in (r, w\<lparr>spans := (spans w)(r := \<lparr>span_name = name,
                                           span_ctx = \<lparr>trace_id = trace_id parent, span_id = r\<rparr>,
                                           attributes = [], events = [], ended = False\<rparr>),
                next_span := Suc r\<rparr>))"

definition logger_info :: "TraceInfo \<Rightarrow> world \<Rightarrow> world" where
  "logger_info ti w = w\<lparr>tracing_log := tracing_log w @ [LogInfo ti]\<rparr>"

definition logger_error :: "string \<Rightarrow> exn \<Rightarrow> world \<Rightarrow> world" where
  "logger_error msg e w = w\<lparr>tracing_log := tracing_log w @ [LogError msg e]\<rparr>"

text \<open>The three registry methods of \<^verbatim>\<open>TracingCallbackHandlerMixin\<close>.\<close>

definition register_span :: "run_id \<Rightarrow> span_ref \<Rightarrow> world \<Rightarrow> world" where
  "register_span rid r w = w\<lparr>span_map := fmupd rid r (span_map w)\<rparr>"

definition current_span :: "run_id \<Rightarrow> world \<Rightarrow> span_ref option" where
  "current_span rid w = fmlookup (span_map w) rid"

definition end_span :: "run_id \<Rightarrow> world \<Rightarrow> world" where
  "end_span rid w =
     (case fmlookup (span_map w) rid of
        None \<Rightarrow> w
      | Some r \<Rightarrow> span_end r (w\<lparr>span_map := fmdrop rid (span_map w)\<rparr>))"

text \<open>The number of entries of the registry (\<^verbatim>\<open>len(_span_map)\<close>).\<close>

definition registry_size :: "world \<Rightarrow> nat" where
  "registry_size w = fcard (fmdom (span_map w))"

subsection \<open>The arguments of the lifecycle events\<close>

text \<open>
  \<^verbatim>\<open>LLMResult\<close>: the generations (a list per prompt) and the optional \<^verbatim>\<open>llm_output\<close> dict,
  of which the code reads the key \<^verbatim>\<open>"token_usage"\<close>. A generation's text that is not a
  string is \<open>None\<close>; \<open>token_usage = None\<close> is an \<^verbatim>\<open>llm_output\<close> without that key.
  \<^verbatim>\<open>AgentAction\<close> has the three attributes the handler reads.
\<close>

record Generation =
  gen_text :: "string option"

record LLMOutput =
  token_usage :: "(string \<times> int) list option"
  model_name :: "string option"

record LLMResult =
  generations :: "Generation list list"
  llm_output :: "LLMOutput option"

record AgentAction =
  tool :: string
  tool_input :: pyval
  action_log :: string

text \<open>\<^verbatim>\<open>response.llm_output["token_usage"]\<close>: subscripting \<^verbatim>\<open>None\<close> or a missing key raises.\<close>

definition token_usage_of :: "LLMResult \<Rightarrow> exn + (string \<times> int) list" where
  "token_usage_of response =
     (case llm_output response of
        None \<Rightarrow> Inl TypeError
      | Some lo \<Rightarrow> (case token_usage lo of None \<Rightarrow> Inl KeyError | Some tu \<Rightarrow> Inr tu))"

text \<open>\<^verbatim>\<open>for k, v in token_usage.items(): span.set_attribute(k, v)\<close>\<close>

fun set_attributes :: "span_ref option \<Rightarrow> (string \<times> int) list \<Rightarrow> world proc" where
  "set_attributes sp [] = effect id"
| "set_attributes sp ((k, v) # rest) = then_do (set_attribute sp k (VInt v)) (set_attributes sp rest)"

text \<open>\<^verbatim>\<open>"\n".join([" ".join([l.text for l in lst]) for lst in response.generations])\<close>\<close>

fun generations_texts :: "Generation list list \<Rightarrow> exn + string list" where
  "generations_texts [] = Inr []"
| "generations_texts (lst # rest) =
     (case py_join '' '' (map gen_text lst) of
        Inl e \<Rightarrow> Inl e
      | Inr s \<Rightarrow> (case generations_texts rest of Inl e \<Rightarrow> Inl e | Inr ss \<Rightarrow> Inr (s # ss)))"

definition output_texts :: "LLMResult \<Rightarrow> exn + string" where
  "output_texts response =
     (case generations_texts (generations response) of
        Inl e \<Rightarrow> Inl e
      | Inr ss \<Rightarrow> Inr (join_str [CHR 0x0A] ss))"

text \<open>Looking a method up on what \<^verbatim>\<open>_current_span\<close> returned, before the arguments are evaluated.\<close>

definition receiver :: "span_ref option \<Rightarrow> exn + span_ref" where
  "receiver sp = (case sp of None \<Rightarrow> Inl AttributeError | Some r \<Rightarrow> Inr r)"

subsection \<open>\<^verbatim>\<open>TracingCallbackHandlerMixin\<close>\<close>

definition on_llm_start ::
  "handler \<Rightarrow> (string \<times> pyval) list \<Rightarrow> string list \<Rightarrow> run_id \<Rightarrow> run_id option \<Rightarrow> world proc" where
  "on_llm_start self serialized ps rid parent_run_id w =
     (case tracer self of
        None \<Rightarrow> (None, w)
      | Some tr \<Rightarrow>
          try_except
            (\<lambda>w0. case start_as_current_span tr ''llm'' (parent_span self) w0 of (sp, w1) \<Rightarrow>
               then_do (set_attribute (Some sp) ''otel.operation.name'' (VStr ''langchain.llm''))
              (then_do (set_attribute (Some sp) ''num_processed_prompts'' (VInt (int (length ps))))
              (then_do (set_attribute (Some sp) ''prompts_len'' (VInt (int (sum_list (map length ps)))))
              (then_do (add_event (Some sp) ''prompts'' [(''data'', VStrList ps)])
              (bind_read (get_span_context (Some sp)) (\<lambda>sc.
               then_do (effect (logger_info \<lparr>trace = trace_id sc, span = span_id sc,
                                             action = ''on_llm_start'', prompts = Some ps,
                                             outputs = [], tokens = None, cost = None\<rparr>))
                       (effect (register_span rid sp))))))) w1)
            (\<lambda>e. effect (logger_error ''Error in tracing callback handler'' e)) w)"

definition on_llm_end :: "handler \<Rightarrow> LLMResult \<Rightarrow> run_id \<Rightarrow> world proc" where
  "on_llm_end self response rid w =
     (case tracer self of
        None \<Rightarrow> (None, w)
      | Some tr \<Rightarrow>
          try_finally
            (try_except
              (bind_read (\<lambda>w0. Inr (current_span rid w0)) (\<lambda>sp.
               eval_then (token_usage_of response) (\<lambda>tu.
               then_do (set_attributes sp tu)
              (eval_then (output_texts response) (\<lambda>texts.
               bind_read (get_span_context sp) (\<lambda>sc.
               then_do (effect (logger_info
                          \<lparr>trace = trace_id sc, span = span_id sc, action = ''on_llm_end'',
                           prompts = None, outputs = texts,
                           tokens = (if total_tokens self \<noteq> 0
                                     then Some (py_round_int (total_tokens self) 3) else None),
                           cost = (if total_cost self \<noteq> 0
                                   then Some (py_round (total_cost self) 3) else None)\<rparr>))
                       (add_event sp ''outputs'' [(''data'', VStr texts)])))))))
              (\<lambda>e. effect (logger_error ''Error in tracing callback handler'' e)))
            (effect (end_span rid)) w)"

definition on_chain_start ::
  "handler \<Rightarrow> (string \<times> pyval) list \<Rightarrow> (string \<times> pyval) list \<Rightarrow> run_id \<Rightarrow> run_id option \<Rightarrow> world proc" where
  "on_chain_start self serialized inputs rid parent_run_id w =
     (case tracer self of
        None \<Rightarrow> (None, w)
      | Some tr \<Rightarrow>
          try_except
            (\<lambda>w0. case start_as_current_span tr ''chain'' (parent_span self) w0 of (sp, w1) \<Rightarrow>
               then_do (set_attribute (Some sp) ''otel.operation.name'' (VStr ''langchain.chain''))
              (eval_then (json_dumps (PDict inputs)) (\<lambda>j.
               then_do (add_event (Some sp) ''inputs'' [(''data'', VJson j)])
                       (effect (register_span rid sp)))) w1)
            (\<lambda>e. effect (logger_error ''Error in tracing callback handler'' e)) w)"

definition on_chain_end ::
  "handler \<Rightarrow> (string \<times> pyval) list \<Rightarrow> run_id \<Rightarrow> run_id option \<Rightarrow> world proc" where
  "on_chain_end self outs rid parent_run_id w =
     (case tracer self of
        None \<Rightarrow> (None, w)
      | Some tr \<Rightarrow>
          try_finally
            (try_except
              (bind_read (\<lambda>w0. Inr (current_span rid w0)) (\<lambda>sp.
               eval_then (receiver sp) (\<lambda>r.
               eval_then (json_dumps (PDict outs)) (\<lambda>j.
               add_event (Some r) ''outputs'' [(''data'', VJson j)]))))
              (\<lambda>e. effect (logger_error ''Error in tracing callback handler'' e)))
            (effect (end_span rid)) w)"

definition on_agent_action :: "handler \<Rightarrow> AgentAction \<Rightarrow> run_id \<Rightarrow> run_id option \<Rightarrow> world proc" where
  "on_agent_action self act rid parent_run_id w =
     (case tracer self of
        None \<Rightarrow> (None, w)
      | Some tr \<Rightarrow>
          try_except
            (bind_read (\<lambda>w0. Inr (current_span rid w0)) (\<lambda>sp.
             add_event sp ''agent_action''
               [(''data'', VStr (tool act)), (''tool_input'', VVal (tool_input act)),
                (''log'', VStr (action_log act))]))
            (\<lambda>e. effect (logger_error ''Error in tracing callback handler'' e)) w)"

definition on_tool_start ::
  "handler \<Rightarrow> (string \<times> pyval) list \<Rightarrow> string \<Rightarrow> run_id \<Rightarrow> run_id option \<Rightarrow> world proc" where
  "on_tool_start self serialized input_str rid parent_run_id w =
     (case tracer self of
        None \<Rightarrow> (None, w)
      | Some tr \<Rightarrow>
          try_except
            (\<lambda>w0. case start_as_current_span tr ''tool'' (parent_span self) w0 of (sp, w1) \<Rightarrow>
               then_do (set_attribute (Some sp) ''otel.operation.name'' (VStr ''langchain.tools''))
              (then_do (add_event (Some sp) ''input'' [(''data'', VStr input_str)])
                       (effect (register_span rid sp))) w1)
            (\<lambda>e. effect (logger_error ''Error in tracing callback handler'' e)) w)"

text \<open>\<^verbatim>\<open>on_tool_end\<close> is the one handler that does not test \<^verbatim>\<open>self.tracer\<close>.\<close>

definition on_tool_end :: "handler \<Rightarrow> string \<Rightarrow> run_id \<Rightarrow> world proc" where
  "on_tool_end self output rid =
     try_finally
       (try_except
         (bind_read (\<lambda>w0. Inr (current_span rid w0)) (\<lambda>sp.
          add_event sp ''output'' [(''data'', VStr output)]))
         (\<lambda>e. effect (logger_error ''Error in tracing callback handler'' e)))
       (effect (end_span rid))"

subsection \<open>\<^verbatim>\<open>OpenAITracingCallbackHandler\<close>\<close>

text \<open>
  \<^verbatim>\<open>on_llm_end\<close> first calls \<^verbatim>\<open>OpenAICallbackHandler.on_llm_end\<close>, a method of the LLM library,
  then the mixin's \<^verbatim>\<open>on_llm_end\<close>. The library method is the parameter \<open>base_on_llm_end\<close>:
  it acts on the two counters that the mixin reads, and it may raise, in which case the
  exception leaves \<^verbatim>\<open>on_llm_end\<close> before the mixin's code runs.
\<close>

type_synonym accounting = "LLMResult \<Rightarrow> int \<times> rat \<Rightarrow> exn option \<times> (int \<times> rat)"

definition OpenAITracing_on_llm_end ::
  "accounting \<Rightarrow> handler \<Rightarrow> LLMResult \<Rightarrow> run_id \<Rightarrow> world \<Rightarrow> exn option \<times> handler \<times> world" where
  "OpenAITracing_on_llm_end base_on_llm_end self response rid w =
     (case base_on_llm_end response (total_tokens self, total_cost self) of
        (Some e, (tk, cs)) \<Rightarrow> (Some e, self\<lparr>total_tokens := tk, total_cost := cs\<rparr>, w)
      | (None, (tk, cs)) \<Rightarrow>
          (case on_llm_end (self\<lparr>total_tokens := tk, total_cost := cs\<rparr>) response rid w of
             (r, w') \<Rightarrow> (r, self\<lparr>total_tokens := tk, total_cost := cs\<rparr>, w')))"

text \<open>
  Modelled from the spec: the token-accounting handler of the LLM library
  (\<^verbatim>\<open>OpenAICallbackHandler.on_llm_end\<close>), which is not part of the source tree. The spec
  says that it maintains a cumulative total-token and total-cost counter, and that after
  an event reporting \<^verbatim>\<open>{total_tokens: 42}\<close> the cumulative token count includes 42. The
  price of a call is the parameter \<open>price\<close>.
\<close>

definition OpenAICallbackHandler_on_llm_end :: "(LLMOutput \<Rightarrow> rat) \<Rightarrow> accounting" where
  "OpenAICallbackHandler_on_llm_end price response c =
     (case llm_output response of
        None \<Rightarrow> (None, c)
      | Some lo \<Rightarrow>
          (case token_usage lo of
             None \<Rightarrow> (None, c)
           | Some tu \<Rightarrow>
               (None, (fst c + (case map_of tu ''total_tokens'' of None \<Rightarrow> 0 | Some n \<Rightarrow> n),
                       snd c + price lo))))"

subsection \<open>\<^verbatim>\<open>AsyncTracingCallbackHandler\<close>\<close>

text \<open>Each method is an \<^verbatim>\<open>async def\<close> whose body is the call of the inherited method.\<close>

definition Async_on_llm_start ::
  "handler \<Rightarrow> (string \<times> pyval) list \<Rightarrow> string list \<Rightarrow> run_id \<Rightarrow> run_id option \<Rightarrow> (world, exn option) coroutine" where
  "Async_on_llm_start self serialized ps rid parent_run_id =
     Coroutine (\<lambda>w. on_llm_start self serialized ps rid parent_run_id w)"

definition Async_on_llm_end :: "handler \<Rightarrow> LLMResult \<Rightarrow> run_id \<Rightarrow> (world, exn option) coroutine" where
  "Async_on_llm_end self response rid = Coroutine (\<lambda>w. on_llm_end self response rid w)"

definition Async_on_chain_start ::
  "handler \<Rightarrow> (string \<times> pyval) list \<Rightarrow> (string \<times> pyval) list \<Rightarrow> run_id \<Rightarrow> run_id option \<Rightarrow> (world, exn option) coroutine" where
  "Async_on_chain_start self serialized inputs rid parent_run_id =
     Coroutine (\<lambda>w. on_chain_start self serialized inputs rid parent_run_id w)"

definition Async_on_chain_end ::
  "handler \<Rightarrow> (string \<times> pyval) list \<Rightarrow> run_id \<Rightarrow> run_id option \<Rightarrow> (world, exn option) coroutine" where
  "Async_on_chain_end self outs rid parent_run_id =
     Coroutine (\<lambda>w. on_chain_end self outs rid parent_run_id w)"

definition Async_on_agent_action ::
  "handler \<Rightarrow> AgentAction \<Rightarrow> run_id \<Rightarrow> run_id option \<Rightarrow> (world, exn option) coroutine" where
  "Async_on_agent_action self act rid parent_run_id =
     Coroutine (\<lambda>w. on_agent_action self act rid parent_run_id w)"

definition Async_on_tool_start ::
  "handler \<Rightarrow> (string \<times> pyval) list \<Rightarrow> string \<Rightarrow> run_id \<Rightarrow> run_id option \<Rightarrow> (world, exn option) coroutine" where
  "Async_on_tool_start self serialized input_str rid parent_run_id =
     Coroutine (\<lambda>w. on_tool_start self serialized input_str rid parent_run_id w)"

definition Async_on_tool_end :: "handler \<Rightarrow> string \<Rightarrow> run_id \<Rightarrow> (world, exn option) coroutine" where
  "Async_on_tool_end self output rid = Coroutine (\<lambda>w. on_tool_end self output rid w)"

section \<open>Streaming to a WebSocket and intercepting the builtins\<close>

subsection \<open>\<^verbatim>\<open>AsyncStreamingWebsocketCallbackHandler\<close>\<close>

text \<open>
  The handler holds a WebSocket and an output model, both objects of libraries. What the
  code uses of them is \<^verbatim>\<open>websocket.send_json(data)\<close>, a procedure on the connection's state
  \<open>'ws\<close>, and \<^verbatim>\<open>output_model(**fields).dict()\<close>, which returns the shaped dict or raises.
\<close>

type_synonym json_dict = "(string \<times> pyval) list"

record 'ws streaming_handler =
  send_json :: "json_dict \<Rightarrow> 'ws proc"
  output_model :: "json_dict \<Rightarrow> exn + json_dict"

definition on_llm_new_token :: "'ws streaming_handler \<Rightarrow> string \<Rightarrow> ('ws, exn option) coroutine" where
  "on_llm_new_token self token =
     Coroutine (\<lambda>ws.
       case (case output_model self [(''result'', PStr token), (''error'', PStr [])] of
               Inr d \<Rightarrow> Inr d
             | Inl e \<Rightarrow> if e = ValidationError
                         then Inr [(''result'', PStr token), (''error'', PStr [])]
                         else Inl e) of
         Inl e \<Rightarrow> (Some e, ws)
       | Inr data \<Rightarrow> send_json self data ws)"

definition on_text :: "'ws streaming_handler \<Rightarrow> string \<Rightarrow> ('ws, exn option) coroutine" where
  "on_text self txt =
     Coroutine (\<lambda>ws.
       case (case output_model self [(''result'', PStr txt), (''error'', PStr [])] of
               Inr d \<Rightarrow> Inr d
             | Inl e \<Rightarrow> if e = ValidationError
                         then Inr [(''result'', PStr txt), (''error'', PStr [])]
                         else Inl e) of
         Inl e \<Rightarrow> (Some e, ws)
       | Inr data \<Rightarrow> send_json self data ws)"

text \<open>
  A connection that records what was sent, and an output model whose \<^verbatim>\<open>result\<close> field
  must be made of digits, to run the handlers on.
\<close>

definition recording_send :: "json_dict \<Rightarrow> json_dict list proc" where
  "recording_send data sent = (None, sent @ [data])"

definition digits_model :: "json_dict \<Rightarrow> exn + json_dict" where
  "digits_model kw =
     (case map_of kw ''result'' of
        Some (PStr r) \<Rightarrow> if list_all (\<lambda>c. c \<in> set ''0123456789'') r
                         then Inr kw else Inl ValidationError
      | _ \<Rightarrow> Inl ValidationError)"

subsection \<open>\<^verbatim>\<open>BuiltinsWrapper\<close>\<close>

text \<open>
  What \<^verbatim>\<open>builtins.print\<close> and \<^verbatim>\<open>builtins.input\<close> can be bound to: a function of the
  interpreter or of anyone else, or one of the two wrapper objects, made from the loop, the
  WebSocket and the output model (identified by numbers here); the \<^verbatim>\<open>InputWrapper\<close> also
  gets a new lock.
\<close>

datatype callable =
    Function string
  | PrintWrapper nat nat nat
  | InputWrapper nat nat

record builtins =
  builtins_print :: callable
  builtins_input :: callable

text \<open>
  The wrapper object. \<open>saved_print\<close> and \<open>saved_input\<close> are the attributes \<^verbatim>\<open>_print\<close> and
  \<^verbatim>\<open>_input\<close>, which do not exist (\<open>None\<close>) until \<^verbatim>\<open>__enter__\<close> sets them.
\<close>

record BuiltinsWrapper =
  bw_loop :: nat
  bw_websocket :: nat
  bw_output_model :: nat
  wrap_print :: bool
  wrap_input :: bool
  saved_print :: "callable option"
  saved_input :: "callable option"

text \<open>
  The wrapper is a mutable object and \<^verbatim>\<open>builtins\<close> is a module of the process: the code
  that runs inside the scope can reach both (it can rebind the builtins, and whoever holds
  the wrapper can enter it again or set its attributes). The state of a scope is therefore
  the pair of them, and \<^verbatim>\<open>__enter__\<close> and \<^verbatim>\<open>__exit__\<close> read and write the wrapper as it
  is when they are called.
\<close>

record session =
  builtins_module :: builtins
  wrapper :: BuiltinsWrapper

definition BuiltinsWrapper_enter :: "session \<Rightarrow> session" where
  "BuiltinsWrapper_enter s =
     (let s1 = (if wrap_print (wrapper s)
                then s\<lparr>wrapper := (wrapper s)\<lparr>saved_print := Some (builtins_print (builtins_module s))\<rparr>,
                       builtins_module := (builtins_module s)
                         \<lparr>builtins_print := PrintWrapper (bw_loop (wrapper s)) (bw_websocket (wrapper s))
                                              (bw_output_model (wrapper s))\<rparr>\<rparr>
                else s)
      in if wrap_input (wrapper s1)
         then s1\<lparr>wrapper := (wrapper s1)\<lparr>saved_input := Some (builtins_input (builtins_module s1))\<rparr>,
                 builtins_module := (builtins_module s1)
                   \<lparr>builtins_input := InputWrapper (bw_loop (wrapper s1)) (bw_websocket (wrapper s1))\<rparr>\<rparr>
         else s1)"

definition BuiltinsWrapper_exit :: "session proc" where
  "BuiltinsWrapper_exit =
     then_do
       (\<lambda>s. if wrap_print (wrapper s)
             then (case saved_print (wrapper s) of
                     None \<Rightarrow> (Some AttributeError, s)
                   | Some f \<Rightarrow> (None, s\<lparr>builtins_module := (builtins_module s)\<lparr>builtins_print := f\<rparr>\<rparr>))
             else (None, s))
       (\<lambda>s. if wrap_input (wrapper s)
             then (case saved_input (wrapper s) of
                     None \<Rightarrow> (Some AttributeError, s)
                   | Some f \<Rightarrow> (None, s\<lparr>builtins_module := (builtins_module s)\<lparr>builtins_input := f\<rparr>\<rparr>))
             else (None, s))"

text \<open>
  \<^verbatim>\<open>with wrapper: body\<close>. The \<^verbatim>\<open>with\<close> statement calls \<^verbatim>\<open>__enter__\<close>, runs the body, and
  calls \<^verbatim>\<open>__exit__\<close> whether the body ended normally or raised. \<^verbatim>\<open>__exit__\<close> returns
  \<^verbatim>\<open>None\<close>, so an exception of the body goes on to the caller afterwards. The body is any
  code on the session: it may rebind the two builtins, it may act on the wrapper object
  (a nested \<^verbatim>\<open>with\<close> on the same wrapper is \<open>with_BuiltinsWrapper\<close> again), and it may
  raise.
\<close>

definition with_BuiltinsWrapper :: "session proc \<Rightarrow> session proc" where
  "with_BuiltinsWrapper body s =
     (case body (BuiltinsWrapper_enter s) of
        (r, s2) \<Rightarrow>
          (case BuiltinsWrapper_exit s2 of
             (None, s3) \<Rightarrow> (r, s3)
           | (Some e, s3) \<Rightarrow> (Some e, s3)))"

section \<open>The command line\<close>

subsection \<open>Validating the \<^verbatim>\<open>--config\<close> option\<close>

text \<open>
  What the validator reads of a Deployment Config document: the instance tiers it names
  and the autoscale minimums it sets, in document order.
\<close>

record jcloud_config =
  instances :: "string list"
  autoscale_mins :: "yaml_scalar list"

definition valid_autoscale_min :: "yaml_scalar \<Rightarrow> bool" where
  "valid_autoscale_min m = (case m of YInt i \<Rightarrow> 0 \<le> i | YStr _ \<Rightarrow> False)"

text \<open>
  Modelled from the spec: \<^verbatim>\<open>validate_jcloud_config\<close> of \<^verbatim>\<open>lcserve/utils.py\<close>, which is not
  among the source files. The spec: every instance-tier value of the document must be a
  recognized platform tier, every autoscale minimum a number \<open>\<ge> 0\<close>; on violation the
  validator raises \<^verbatim>\<open>InvalidInstanceError\<close> carrying the offending tier name, or
  \<^verbatim>\<open>InvalidAutoscaleMinError\<close> carrying the offending value, and a document with a tier
  outside the recognized set always gives the first. The recognized tiers and the loading
  of the file at a path (which can fail) are parameters.
\<close>

definition validate_jcloud_config ::
  "string list \<Rightarrow> (string \<Rightarrow> exn + jcloud_config) \<Rightarrow> string \<Rightarrow> exn option" where
  "validate_jcloud_config tiers load path =
     (case load path of
        Inl e \<Rightarrow> Some e
      | Inr cfg \<Rightarrow>
          (case filter (\<lambda>i. i \<notin> set tiers) (instances cfg) of
             i # _ \<Rightarrow> Some (InvalidInstanceError i)
           | [] \<Rightarrow>
               (case filter (\<lambda>m. \<not> valid_autoscale_min m) (autoscale_mins cfg) of
                  m # _ \<Rightarrow> Some (InvalidAutoscaleMinError m)
                | [] \<Rightarrow> None)))"

text \<open>\<^verbatim>\<open>str()\<close> of an integer and of a scalar, for the f-strings of the callback.\<close>

definition digit_char :: "nat \<Rightarrow> char" where
  "digit_char d = char_of (48 + d)"

fun str_nat :: "nat \<Rightarrow> string" where
  "str_nat n = (if n < 10 then [digit_char n] else str_nat (n div 10) @ [digit_char (n mod 10)])"

declare str_nat.simps [simp del]

definition str_int :: "int \<Rightarrow> string" where
  "str_int i = (if i < 0 then CHR ''-'' # str_nat (nat (- i)) else str_nat (nat i))"

definition py_str :: "yaml_scalar \<Rightarrow> string" where
  "py_str v = (case v of YInt i \<Rightarrow> str_int i | YStr s \<Rightarrow> s)"

definition docs_pointer :: string where
  "docs_pointer = ''https://docs.jina.ai/concepts/jcloud/configuration/#cpu-tiers''"

definition invalid_instance_message :: "string \<Rightarrow> string" where
  "invalid_instance_message inst =
     ''Invalid instance '' @ [CHR 0x27] @ inst @ [CHR 0x27] @ '' found in config file'' @ [CHR 0x27]
       @ '', please refer to '' @ docs_pointer @ '' for instance definition.''"

definition invalid_autoscale_message :: "yaml_scalar \<Rightarrow> string" where
  "invalid_autoscale_message m =
     ''Invalid instance '' @ [CHR 0x27] @ py_str m @ [CHR 0x27] @ '' found in config file'' @ [CHR 0x27]
       @ '', it should be a number >= 0.''"

text \<open>
  \<^verbatim>\<open>validate_jcloud_config_callback(ctx, param, value)\<close>. The validator is the parameter
  \<open>validate\<close>; \<open>value\<close> is \<open>None\<close> when the option was not given. The result is what the
  callback returns, or the exception it raises.
\<close>

definition validate_jcloud_config_callback ::
  "(string \<Rightarrow> exn option) \<Rightarrow> string option \<Rightarrow> exn + string option" where
  "validate_jcloud_config_callback validate val =
     (case val of
        None \<Rightarrow> Inr None
      | Some v \<Rightarrow>
          if v = [] then Inr None
          else (case validate v of
                  None \<Rightarrow> Inr (Some v)
                | Some (InvalidInstanceError inst) \<Rightarrow> Inl (BadParameter (invalid_instance_message inst))
                | Some (InvalidAutoscaleMinError m) \<Rightarrow> Inl (BadParameter (invalid_autoscale_message m))
                | Some e \<Rightarrow> Inl e))"

subsection \<open>\<^verbatim>\<open>serve_on_jcloud\<close>\<close>

text \<open>
  The operations of the Flow/Deployment module (\<^verbatim>\<open>lcserve/flow.py\<close> and the playground
  helper that draws the tag) are not among the source files; they are the fields of a
  \<open>flow_module\<close>. Each acts on the state \<open>'p\<close> of everything outside the process (the
  registry, the platform, the file system, the random source) and returns a value or
  raises. \<open>'f\<close> is the type of a flow description.
\<close>

datatype module_ref = Module string | Modules "string list"

record push_args =
  pa_app :: string
  pa_app_dir :: string
  pa_requirements :: "string list option"
  pa_tag :: string
  pa_version :: string
  pa_platform :: "string option"
  pa_verbose :: bool

record flow_args =
  fa_module :: module_ref
  fa_jcloud :: bool
  fa_port :: nat
  fa_name :: string
  fa_timeout :: int
  fa_app_id :: "string option"
  fa_gateway_id :: string
  fa_is_websocket :: bool
  fa_jcloud_config_path :: "string option"

type_synonym ('p, 'a) op = "'p \<Rightarrow> (exn + 'a) \<times> 'p"

record ('p, 'f) flow_module =
  get_app_dir :: "module_ref \<Rightarrow> ('p, string \<times> string) op"
  resolve_jcloud_config :: "string option \<Rightarrow> string \<Rightarrow> ('p, string option) op"
  get_random_tag :: "('p, string) op"
  push_app_to_hubble :: "push_args \<Rightarrow> ('p, string \<times> bool) op"
  get_flow_dict :: "flow_args \<Rightarrow> ('p, 'f) op"
  deploy_app_on_jcloud :: "'f \<Rightarrow> string option \<Rightarrow> bool \<Rightarrow> ('p, string \<times> string) op"
  get_app_status_on_jcloud :: "string \<Rightarrow> ('p, unit) op"

text \<open>
  To state the order of the three stages the run keeps a timeline: a mark when a stage is
  entered, with what it was called on (the tag of the push, the gateway identifier put in
  the submitted flow, the application polled), and a mark when it is left, with what it
  returned or raised. The timeline is an observer's record; the operations themselves act
  on \<open>outside\<close> only.
\<close>

datatype mark =
    PushBegin string
  | PushEnd "exn + string \<times> bool"
  | SubmitBegin string
  | SubmitEnd "exn + string \<times> string"
  | PollBegin string
  | PollEnd "exn + unit"

record 'p deploy_state =
  timeline :: "mark list"
  outside :: 'p

definition call :: "('p, 'a) op \<Rightarrow> ('p deploy_state, 'a) op" where
  "call f s = (case f (outside s) of (r, p) \<Rightarrow> (r, s\<lparr>outside := p\<rparr>))"

definition stage :: "mark \<Rightarrow> (exn + 'a \<Rightarrow> mark) \<Rightarrow> ('p, 'a) op \<Rightarrow> ('p deploy_state, 'a) op" where
  "stage enter leave f s =
     (case f (outside s) of
        (r, p) \<Rightarrow> (r, \<lparr>timeline = timeline s @ [enter, leave r], outside = p\<rparr>))"

definition and_then :: "('s, 'a) op \<Rightarrow> ('a \<Rightarrow> ('s, 'b) op) \<Rightarrow> ('s, 'b) op" where
  "and_then f k s = (case f s of (Inl e, s') \<Rightarrow> (Inl e, s') | (Inr a, s') \<Rightarrow> k a s')"

definition serve_on_jcloud ::
  "('p, 'f) flow_module \<Rightarrow> module_ref \<Rightarrow> string \<Rightarrow> string list option \<Rightarrow> string option \<Rightarrow> string
     \<Rightarrow> int \<Rightarrow> string option \<Rightarrow> string option \<Rightarrow> bool \<Rightarrow> ('p deploy_state, exn + string) coroutine" where
  "serve_on_jcloud fm modl name requirements app_id version timeout platform config verbose =
     Coroutine
      (and_then (call (get_app_dir fm modl)) (\<lambda>(app, app_dir).
       and_then (call (resolve_jcloud_config fm config app_dir)) (\<lambda>config'.
       and_then (call (get_random_tag fm)) (\<lambda>tag.
       and_then (stage (PushBegin tag) PushEnd
                   (push_app_to_hubble fm
                      \<lparr>pa_app = app, pa_app_dir = app_dir, pa_requirements = requirements,
                       pa_tag = tag, pa_version = version, pa_platform = platform,
                       pa_verbose = verbose\<rparr>)) (\<lambda>(gateway_id_wo_tag, is_websocket).
       and_then (call (get_flow_dict fm
                      \<lparr>fa_module = modl, fa_jcloud = True, fa_port = 8080, fa_name = name,
                       fa_timeout = timeout, fa_app_id = app_id,
                       fa_gateway_id = gateway_id_wo_tag @ '':'' @ tag,
                       fa_is_websocket = is_websocket, fa_jcloud_config_path = config'\<rparr>)) (\<lambda>flow_dict.
       and_then (stage (SubmitBegin (gateway_id_wo_tag @ '':'' @ tag)) SubmitEnd
                   (deploy_app_on_jcloud fm flow_dict app_id verbose)) (\<lambda>(app_id', _).
       and_then (stage (PollBegin app_id') PollEnd (get_app_status_on_jcloud fm app_id')) (\<lambda>_.
       (\<lambda>s. (Inr app_id', s))))))))))"

subsection \<open>\<^verbatim>\<open>list\<close>\<close>

text \<open>
  The members of \<^verbatim>\<open>jcloud.constants.Phase\<close> that the source names. The enumeration is a
  string enumeration of a library; \<^verbatim>\<open>','.join\<close> puts each member's string value.
\<close>

datatype Phase = Serving | Failed | Starting | Updating | Paused

text \<open>
  Modelled from the spec: the string values of the members of \<^verbatim>\<open>Phase\<close>, which the spec
  writes as \<^verbatim>\<open>Serving, Failed, Starting, Updating, Paused\<close>.
\<close>

fun Phase_value :: "Phase \<Rightarrow> string" where
  "Phase_value Serving = ''Serving''"
| "Phase_value Failed = ''Failed''"
| "Phase_value Starting = ''Starting''"
| "Phase_value Updating = ''Updating''"
| "Phase_value Paused = ''Paused''"

definition default_phases :: "Phase list" where
  "default_phases = [Serving, Failed, Starting, Updating, Paused]"

definition phase_option_default :: "(Phase \<Rightarrow> string) \<Rightarrow> string" where
  "phase_option_default pv = join_str '','' (map pv default_phases)"

text \<open>A click option that was not given on the command line takes its default.\<close>

definition click_option :: "'a \<Rightarrow> 'a option \<Rightarrow> 'a" where
  "click_option dflt given = (case given of None \<Rightarrow> dflt | Some v \<Rightarrow> v)"

text \<open>
  The \<^verbatim>\<open>list\<close> command: its two options, then the body, which awaits
  \<^verbatim>\<open>list_apps_on_jcloud(phase=phase, name=name)\<close>. The listing operation is a parameter.
  \<open>None\<close> for an option means that the command line does not have it.
\<close>

definition list_command ::
  "(Phase \<Rightarrow> string) \<Rightarrow> (string \<Rightarrow> string option \<Rightarrow> 'p proc) \<Rightarrow> string option \<Rightarrow> string option
     \<Rightarrow> ('p, exn option) coroutine" where
  "list_command pv list_apps_on_jcloud phase_arg name_arg =
     Coroutine (list_apps_on_jcloud (click_option (phase_option_default pv) phase_arg)
                                    (click_option None (map_option Some name_arg)))"

text \<open>\<^verbatim>\<open>str.split(',')\<close>, to read the phases back from the filter.\<close>

fun split_commas :: "string \<Rightarrow> string \<Rightarrow> string list" where
  "split_commas acc [] = [rev acc]"
| "split_commas acc (c # cs) =
     (if c = CHR '','' then rev acc # split_commas [] cs else split_commas (c # acc) cs)"

section \<open>Concrete handlers and states\<close>

text \<open>
  A world in which nothing has happened yet, a handler with tracing on and one with
  tracing off (\<^verbatim>\<open>tracer=None\<close>), and a model response, to run the handlers on.
\<close>

definition blank_span :: Span where
  "blank_span = \<lparr>span_name = [], span_ctx = \<lparr>trace_id = 0, span_id = 0\<rparr>,
                  attributes = [], events = [], ended = False\<rparr>"

definition empty_world :: world where
  "empty_world = \<lparr>span_map = fmempty, spans = (\<lambda>_. blank_span), next_span = 0, tracing_log = []\<rparr>"

definition tracing_on :: handler where
  "tracing_on = \<lparr>tracer = Some (Tracer ''lcserve''), parent_span = \<lparr>trace_id = 1, span_id = 0\<rparr>,
                  total_tokens = 0, total_cost = 0\<rparr>"

definition tracing_off :: handler where
  "tracing_off = \<lparr>tracer = None, parent_span = \<lparr>trace_id = 1, span_id = 0\<rparr>,
                   total_tokens = 0, total_cost = 0\<rparr>"

definition response42 :: LLMResult where
  "response42 = \<lparr>generations = [[\<lparr>gen_text = Some ''hello''\<rparr>]],
                  llm_output = Some \<lparr>token_usage = Some [(''total_tokens'', 42)],
                                     model_name = None\<rparr>\<rparr>"

definition broken_response :: LLMResult where
  "broken_response = \<lparr>generations = [[\<lparr>gen_text = None\<rparr>]], llm_output = None\<rparr>"

text \<open>A world with one open span, registered under run identifier 7.\<close>

definition one_span_world :: world where
  "one_span_world = empty_world\<lparr>span_map := fmupd 7 0 fmempty, next_span := 1\<rparr>"

text \<open>
  A wrapper with both interceptions on, the builtins of a fresh interpreter, the session
  made of the two, a body that rebinds \<^verbatim>\<open>print\<close> and then raises, and the body
  \<^verbatim>\<open>pass\<close>.
\<close>

definition both_wrapped :: BuiltinsWrapper where
  "both_wrapped = \<lparr>bw_loop = 1, bw_websocket = 2, bw_output_model = 3, wrap_print = True,
                    wrap_input = True, saved_print = None, saved_input = None\<rparr>"

definition fresh_builtins :: builtins where
  "fresh_builtins = \<lparr>builtins_print = Function ''print'', builtins_input = Function ''input''\<rparr>"

definition fresh_session :: session where
  "fresh_session = \<lparr>builtins_module = fresh_builtins, wrapper = both_wrapped\<rparr>"

definition raising_body :: "session proc" where
  "raising_body s =
     (Some (OtherError ''boom''),
      s\<lparr>builtins_module := (builtins_module s)\<lparr>builtins_print := Function ''patched''\<rparr>\<rparr>)"

definition pass_body :: "session proc" where
  "pass_body s = (None, s)"

text \<open>
  A Flow/Deployment module in which every operation succeeds: its outside state counts
  the network calls made, a flow description is the arguments it was built from, and the
  platform names the application after the gateway identifier of the submitted flow. A
  configuration loader for one document.
\<close>

definition example_flow_module :: "(nat, flow_args) flow_module" where
  "example_flow_module =
     \<lparr>get_app_dir = (\<lambda>m p. (Inr (''app'', ''/srv/app''), p)),
      resolve_jcloud_config = (\<lambda>c d p. (Inr c, p)),
      get_random_tag = (\<lambda>p. (Inr ''t1'', p)),
      push_app_to_hubble = (\<lambda>a p. (Inr (''gw'', False), Suc p)),
      get_flow_dict = (\<lambda>a p. (Inr a, p)),
      deploy_app_on_jcloud = (\<lambda>f aid v p. (Inr (''app-'' @ fa_gateway_id f, ''endpoint''), Suc p)),
      get_app_status_on_jcloud = (\<lambda>aid p. (Inr (), Suc p))\<rparr>"

definition example_load :: "string \<Rightarrow> exn + jcloud_config" where
  "example_load path =
     (if path = ''jcloud.yml''
      then Inr \<lparr>instances = [''C1'', ''X9''], autoscale_mins = [YInt (- 1)]\<rparr>
      else Inl (OtherError ''FileNotFoundError''))"

section \<open>Properties of the tracing handlers\<close>

subsection \<open>What each handler does, case by case\<close>

lemmas proc_defs = effect_def then_do_def bind_read_def eval_then_def try_except_def try_finally_def


lemma on_tool_end_eq:
  "on_tool_end self output rid w =
     (None, case fmlookup (span_map w) rid of
              None \<Rightarrow> logger_error ''Error in tracing callback handler'' AttributeError w
            | Some r \<Rightarrow> span_end r ((upd_span r (\<lambda>x. x\<lparr>events := events x @ [(''output'', [(''data'', VStr output)])]\<rparr>) w)
                          \<lparr>span_map := fmdrop rid (span_map w)\<rparr>))"
  by (auto simp: on_tool_end_def proc_defs current_span_def add_event_def end_span_def
        logger_error_def upd_span_def split: option.splits)

lemma on_chain_end_eq:
  "tracer self = Some tr \<Longrightarrow> on_chain_end self outs rid prid w =
     (None, case fmlookup (span_map w) rid of
              None \<Rightarrow> logger_error ''Error in tracing callback handler'' AttributeError w
            | Some r \<Rightarrow>
               (if json_serializable (PDict outs)
                then span_end r ((upd_span r (\<lambda>x. x\<lparr>events := events x @ [(''outputs'', [(''data'', VJson (JsonText (PDict outs)))])]\<rparr>) w)
                          \<lparr>span_map := fmdrop rid (span_map w)\<rparr>)
                else span_end r ((logger_error ''Error in tracing callback handler'' TypeError w)\<lparr>span_map := fmdrop rid (span_map w)\<rparr>)))"
  by (auto simp: on_chain_end_def proc_defs current_span_def add_event_def end_span_def receiver_def json_dumps_def
        logger_error_def upd_span_def split: option.splits)


lemma set_attributes_Some:
  "set_attributes (Some r) tu w =
     (None, upd_span r (\<lambda>x. x\<lparr>attributes := fold (\<lambda>kv. AList.update (fst kv) (VInt (snd kv))) tu (attributes x)\<rparr>) w)"
proof (induction tu arbitrary: w)
  case Nil
  show ?case by (simp add: effect_def upd_span_def)
next
  case (Cons kv tu)
  obtain k v where kv: "kv = (k, v)" by (cases kv)
  show ?case
    by (simp add: kv then_do_def set_attribute_def Cons.IH upd_span_def)
qed

lemma on_llm_start_eq:
  assumes "tracer self = Some tr"
  shows "on_llm_start self ser ps rid prid w =
     (None, w\<lparr>span_map := fmupd rid (next_span w) (span_map w),
              spans := (spans w)(next_span w :=
                 \<lparr>span_name = ''llm'',
                  span_ctx = \<lparr>trace_id = trace_id (parent_span self), span_id = next_span w\<rparr>,
                  attributes = [(''otel.operation.name'', VStr ''langchain.llm''),
                                (''num_processed_prompts'', VInt (int (length ps))),
                                (''prompts_len'', VInt (int (sum_list (map length ps))))],
                  events = [(''prompts'', [(''data'', VStrList ps)])],
                  ended = False\<rparr>),
              next_span := Suc (next_span w),
              tracing_log := tracing_log w @
                 [LogInfo \<lparr>trace = trace_id (parent_span self), span = next_span w,
                           action = ''on_llm_start'', prompts = Some ps, outputs = [],
                           tokens = None, cost = None\<rparr>]\<rparr>)"
  using assms
  by (simp add: on_llm_start_def proc_defs start_as_current_span_def Let_def set_attribute_def
        add_event_def get_span_context_def logger_info_def register_span_def upd_span_def)

lemma on_tool_start_eq:
  assumes "tracer self = Some tr"
  shows "on_tool_start self ser input_str rid prid w =
     (None, w\<lparr>span_map := fmupd rid (next_span w) (span_map w),
              spans := (spans w)(next_span w :=
                 \<lparr>span_name = ''tool'',
                  span_ctx = \<lparr>trace_id = trace_id (parent_span self), span_id = next_span w\<rparr>,
                  attributes = [(''otel.operation.name'', VStr ''langchain.tools'')],
                  events = [(''input'', [(''data'', VStr input_str)])],
                  ended = False\<rparr>),
              next_span := Suc (next_span w)\<rparr>)"
  using assms
  by (simp add: on_tool_start_def proc_defs start_as_current_span_def Let_def set_attribute_def
        add_event_def register_span_def upd_span_def)

lemma on_chain_start_eq:
  assumes "tracer self = Some tr"
  shows "on_chain_start self ser inputs rid prid w =
     (None,
      if json_serializable (PDict inputs)
      then w\<lparr>span_map := fmupd rid (next_span w) (span_map w),
              spans := (spans w)(next_span w :=
                 \<lparr>span_name = ''chain'',
                  span_ctx = \<lparr>trace_id = trace_id (parent_span self), span_id = next_span w\<rparr>,
                  attributes = [(''otel.operation.name'', VStr ''langchain.chain'')],
                  events = [(''inputs'', [(''data'', VJson (JsonText (PDict inputs)))])],
                  ended = False\<rparr>),
              next_span := Suc (next_span w)\<rparr>
      else w\<lparr>spans := (spans w)(next_span w :=
                 \<lparr>span_name = ''chain'',
                  span_ctx = \<lparr>trace_id = trace_id (parent_span self), span_id = next_span w\<rparr>,
                  attributes = [(''otel.operation.name'', VStr ''langchain.chain'')],
                  events = [],
                  ended = False\<rparr>),
              next_span := Suc (next_span w),
              tracing_log := tracing_log w @ [LogError ''Error in tracing callback handler'' TypeError]\<rparr>)"
  using assms
  by (simp add: on_chain_start_def proc_defs start_as_current_span_def Let_def set_attribute_def
        add_event_def register_span_def upd_span_def json_dumps_def logger_error_def)

lemma on_llm_end_registered:
  assumes "tracer self = Some tr" "fmlookup (span_map w) rid = Some r"
  shows "fst (on_llm_end self response rid w) = None
       \<and> span_map (snd (on_llm_end self response rid w)) = fmdrop rid (span_map w)
       \<and> ended (spans (snd (on_llm_end self response rid w)) r)
       \<and> next_span (snd (on_llm_end self response rid w)) = next_span w"
  using assms
  by (auto simp: on_llm_end_def proc_defs current_span_def set_attributes_Some get_span_context_def
        end_span_def span_end_def logger_error_def logger_info_def add_event_def upd_span_def
        split: option.splits sum.splits)

subsection \<open>A start event followed by its end event\<close>

lemma registry_size_drop_upd:
  "fmlookup m rid = None \<Longrightarrow> fcard (fmdom (fmdrop rid (fmupd rid r m))) = fcard (fmdom m)"
  by (simp add: fmdrop_fmupd fmdom_notI)

lemma llm_round_trip:
  assumes "tracer self = Some tr"
  shows "(let w1 = snd (on_llm_start self ser ps rid prid w);
              w2 = snd (on_llm_end self response rid w1)
          in span_map w1 = fmupd rid (next_span w) (span_map w)
           \<and> \<not> ended (spans w1 (next_span w))
           \<and> fst (on_llm_end self response rid w1) = None
           \<and> span_map w2 = fmdrop rid (span_map w)
           \<and> ended (spans w2 (next_span w))
           \<and> (fmlookup (span_map w) rid = None \<longrightarrow> registry_size w2 = registry_size w))"
proof -
  let ?w1 = "snd (on_llm_start self ser ps rid prid w)"
  have m1: "span_map ?w1 = fmupd rid (next_span w) (span_map w)"
    and o1: "\<not> ended (spans ?w1 (next_span w))"
    by (simp_all add: on_llm_start_eq [OF assms])
  have reg: "fmlookup (span_map ?w1) rid = Some (next_span w)"
    by (simp add: m1)
  note e = on_llm_end_registered [OF assms reg, of response]
  have m2: "span_map (snd (on_llm_end self response rid ?w1)) = fmdrop rid (span_map w)"
    using e by (simp add: m1 fmdrop_fmupd)
  have sz: "fmlookup (span_map w) rid = None \<longrightarrow>
              registry_size (snd (on_llm_end self response rid ?w1)) = registry_size w"
    using m2 by (simp add: registry_size_def fmdom_notI)
  show ?thesis
    using m1 o1 e m2 sz by (simp add: Let_def)
qed

lemma tool_round_trip:
  assumes "tracer self = Some tr"
  shows "(let w1 = snd (on_tool_start self ser input_str rid prid w);
              w2 = snd (on_tool_end self output rid w1)
          in span_map w1 = fmupd rid (next_span w) (span_map w)
           \<and> \<not> ended (spans w1 (next_span w))
           \<and> fst (on_tool_end self output rid w1) = None
           \<and> span_map w2 = fmdrop rid (span_map w)
           \<and> ended (spans w2 (next_span w))
           \<and> (fmlookup (span_map w) rid = None \<longrightarrow> registry_size w2 = registry_size w))"
  by (simp add: Let_def on_tool_start_eq [OF assms] on_tool_end_eq span_end_def upd_span_def
        fmdrop_fmupd registry_size_def fmdom_notI)

lemma chain_round_trip:
  assumes "tracer self = Some tr" "json_serializable (PDict inputs)"
  shows "(let w1 = snd (on_chain_start self ser inputs rid prid w);
              w2 = snd (on_chain_end self outs rid prid w1)
          in span_map w1 = fmupd rid (next_span w) (span_map w)
           \<and> \<not> ended (spans w1 (next_span w))
           \<and> fst (on_chain_end self outs rid prid w1) = None
           \<and> span_map w2 = fmdrop rid (span_map w)
           \<and> ended (spans w2 (next_span w))
           \<and> (fmlookup (span_map w) rid = None \<longrightarrow> registry_size w2 = registry_size w))"
  using assms(2)
  by (simp add: Let_def on_chain_start_eq [OF assms(1)] on_chain_end_eq [OF assms(1)] span_end_def
        upd_span_def logger_error_def fmdrop_fmupd registry_size_def fmdom_notI)

text \<open>
  C1, as amended. When the handler's tracer is set (and, for a chain start, the inputs
  can be encoded as JSON), a start event for a run identifier registers exactly one span
  under it: the registry afterwards is the registry before with the identifier mapped to
  a new, open span. The matching end event then returns normally, closes that span and
  removes the identifier from the registry, whatever the response or the outputs are, so
  also when reading the token usage, building the output text or encoding the outputs
  raises. When the identifier had no entry before the pair, the registry has the same
  size after the pair as before.
\<close>

theorem start_end_round_trip:
  assumes "tracer self = Some tr"
  shows "(let w1 = snd (on_llm_start self ser ps rid prid w);
              w2 = snd (on_llm_end self response rid w1)
          in span_map w1 = fmupd rid (next_span w) (span_map w)
           \<and> \<not> ended (spans w1 (next_span w))
           \<and> fst (on_llm_end self response rid w1) = None
           \<and> span_map w2 = fmdrop rid (span_map w)
           \<and> ended (spans w2 (next_span w))
           \<and> (fmlookup (span_map w) rid = None \<longrightarrow> registry_size w2 = registry_size w))
       \<and> (let w1 = snd (on_tool_start self ser input_str rid prid w);
              w2 = snd (on_tool_end self output rid w1)
          in span_map w1 = fmupd rid (next_span w) (span_map w)
           \<and> \<not> ended (spans w1 (next_span w))
           \<and> fst (on_tool_end self output rid w1) = None
           \<and> span_map w2 = fmdrop rid (span_map w)
           \<and> ended (spans w2 (next_span w))
           \<and> (fmlookup (span_map w) rid = None \<longrightarrow> registry_size w2 = registry_size w))
       \<and> (json_serializable (PDict inputs) \<longrightarrow>
           (let w1 = snd (on_chain_start self ser inputs rid prid w);
              w2 = snd (on_chain_end self outs rid prid w1)
          in span_map w1 = fmupd rid (next_span w) (span_map w)
           \<and> \<not> ended (spans w1 (next_span w))
           \<and> fst (on_chain_end self outs rid prid w1) = None
           \<and> span_map w2 = fmdrop rid (span_map w)
           \<and> ended (spans w2 (next_span w))
           \<and> (fmlookup (span_map w) rid = None \<longrightarrow> registry_size w2 = registry_size w)))"
  using llm_round_trip [OF assms, of ser ps rid prid w response]
        tool_round_trip [OF assms, of ser input_str rid prid w "output"]
        chain_round_trip [OF assms, of inputs ser rid prid w outs]
  by blast

theorem start_end_round_trip_witness:
  "tracer tracing_on = Some (Tracer ''lcserve'')
 \<and> json_serializable (PDict [(''question'', PStr ''hi'')])
 \<and> fmlookup (span_map empty_world) 7 = None
 \<and> fmlookup (span_map (snd (on_llm_start tracing_on [] [''hi''] 7 None empty_world))) 7 = Some 0
 \<and> registry_size (snd (on_llm_start tracing_on [] [''hi''] 7 None empty_world)) = 1
 \<and> registry_size (snd (on_llm_end tracing_on broken_response 7
                        (snd (on_llm_start tracing_on [] [''hi''] 7 None empty_world)))) = 0
 \<and> ended (spans (snd (on_llm_end tracing_on broken_response 7
                        (snd (on_llm_start tracing_on [] [''hi''] 7 None empty_world)))) 0)
 \<and> registry_size (snd (on_chain_end tracing_on [(''answer'', PObject ''Document'')] 7 None
                        (snd (on_chain_start tracing_on [] [(''question'', PStr ''hi'')] 7 None empty_world)))) = 0
 \<and> registry_size (snd (on_tool_end tracing_on ''4'' 7
                        (snd (on_tool_start tracing_on [] ''2+2'' 7 None empty_world)))) = 0"
proof -
  have t: "tracer tracing_on = Some (Tracer ''lcserve'')" by (simp add: tracing_on_def)
  have j: "json_serializable (PDict [(''question'', PStr ''hi'')])" by simp
  have h: "fmlookup (span_map empty_world) 7 = None" by (simp add: empty_world_def)
  have n: "next_span empty_world = 0" by (simp add: empty_world_def)
  have z: "registry_size empty_world = 0" by (simp add: registry_size_def empty_world_def)
  have o: "registry_size (snd (on_llm_start tracing_on [] [''hi''] 7 None empty_world)) = 1"
    by (simp add: on_llm_start_eq [OF t] registry_size_def empty_world_def fcard_finsert_disjoint)
  note a = start_end_round_trip [OF t, of "[]" "[''hi'']" 7 None empty_world broken_response
             "''2+2''" "''4''" "[(''question'', PStr ''hi'')]" "[(''answer'', PObject ''Document'')]"]
  show ?thesis
    using a t j h n z o by (simp add: Let_def)
qed

text \<open>
  C1 as stated fails: a handler whose tracer is unset registers nothing on a start event;
  a chain start whose inputs hold an object that JSON cannot encode registers nothing
  either; and a pair run on an identifier that already has an entry leaves the registry
  one entry smaller than before.
\<close>

theorem start_does_not_always_register:
  "fmlookup (span_map (snd (on_llm_start tracing_off [] [''hi''] 7 None empty_world))) 7 = None
 \<and> registry_size (snd (on_llm_start tracing_off [] [''hi''] 7 None empty_world)) = 0
 \<and> fmlookup (span_map (snd (on_chain_start tracing_on [] [(''doc'', PObject ''Document'')] 7 None
                               empty_world))) 7 = None
 \<and> registry_size one_span_world = 1
 \<and> registry_size (snd (on_llm_end tracing_on response42 7
                         (snd (on_llm_start tracing_on [] [''hi''] 7 None one_span_world)))) = 0"
proof -
  have t: "tracer tracing_on = Some (Tracer ''lcserve'')" by (simp add: tracing_on_def)
  have off: "on_llm_start tracing_off [] [''hi''] 7 None empty_world = (None, empty_world)"
    by (simp add: on_llm_start_def tracing_off_def)
  have c: "fmlookup (span_map (snd (on_chain_start tracing_on [] [(''doc'', PObject ''Document'')] 7 None
                               empty_world))) 7 = None"
    by (simp add: on_chain_start_eq [OF t] empty_world_def)
  have s1: "registry_size one_span_world = 1"
    by (simp add: registry_size_def one_span_world_def fcard_finsert_disjoint)
  have m: "span_map (snd (on_llm_end tracing_on response42 7
                         (snd (on_llm_start tracing_on [] [''hi''] 7 None one_span_world))))
            = fmdrop 7 (span_map one_span_world)"
    using llm_round_trip [OF t, of "[]" "[''hi'']" 7 None one_span_world response42]
    by (simp add: Let_def)
  have s0: "registry_size (snd (on_llm_end tracing_on response42 7
                         (snd (on_llm_start tracing_on [] [''hi''] 7 None one_span_world)))) = 0"
    unfolding registry_size_def m by (simp add: one_span_world_def fmdrop_fmupd)
  show ?thesis
    using off c s1 s0 by (simp add: registry_size_def empty_world_def)
qed

subsection \<open>End events without a start\<close>



subsection \<open>The handler without a tracer test\<close>

text \<open>
  C10. With the tracer unset, each of the six other handlers returns at once and leaves
  the world, the span registry included, as it was. \<^verbatim>\<open>on_tool_end\<close> has no such test: for
  every handler, also one whose tracer is \<^verbatim>\<open>None\<close>, it looks the span up, adds the output
  event to it, and in every case ends the registered span and removes the run identifier
  from the registry, without raising; when no span is registered the failed method call is
  logged instead.
\<close>

theorem on_tool_end_has_no_tracer_guard:
  "(tracer self = None \<longrightarrow>
       on_llm_start self ser ps rid prid w = (None, w)
     \<and> on_llm_end self response rid w = (None, w)
     \<and> on_chain_start self ser inputs rid prid w = (None, w)
     \<and> on_chain_end self outs rid prid w = (None, w)
     \<and> on_agent_action self act rid prid w = (None, w)
     \<and> on_tool_start self ser input_str rid prid w = (None, w))
 \<and> fst (on_tool_end self output rid w) = None
 \<and> fmlookup (span_map (snd (on_tool_end self output rid w))) rid = None
 \<and> (\<forall>r. fmlookup (span_map w) rid = Some r \<longrightarrow>
        snd (on_tool_end self output rid w)
          = w\<lparr>span_map := fmdrop rid (span_map w),
              spans := (spans w)(r := (spans w r)
                 \<lparr>events := events (spans w r) @ [(''output'', [(''data'', VStr output)])],
                  ended := True\<rparr>)\<rparr>)
 \<and> (fmlookup (span_map w) rid = None \<longrightarrow>
        snd (on_tool_end self output rid w)
          = logger_error ''Error in tracing callback handler'' AttributeError w)"
proof -
  have guarded: "tracer self = None \<longrightarrow>
       on_llm_start self ser ps rid prid w = (None, w)
     \<and> on_llm_end self response rid w = (None, w)
     \<and> on_chain_start self ser inputs rid prid w = (None, w)
     \<and> on_chain_end self outs rid prid w = (None, w)
     \<and> on_agent_action self act rid prid w = (None, w)
     \<and> on_tool_start self ser input_str rid prid w = (None, w)"
    by (simp add: on_llm_start_def on_llm_end_def on_chain_start_def on_chain_end_def
          on_agent_action_def on_tool_start_def)
  have gone: "fmlookup (span_map (snd (on_tool_end self output rid w))) rid = None"
    by (cases "fmlookup (span_map w) rid")
       (simp_all add: on_tool_end_eq logger_error_def span_end_def upd_span_def)
  have closed: "\<forall>r. fmlookup (span_map w) rid = Some r \<longrightarrow>
        snd (on_tool_end self output rid w)
          = w\<lparr>span_map := fmdrop rid (span_map w),
              spans := (spans w)(r := (spans w r)
                 \<lparr>events := events (spans w r) @ [(''output'', [(''data'', VStr output)])],
                  ended := True\<rparr>)\<rparr>"
    by (simp add: on_tool_end_eq span_end_def upd_span_def)
  show ?thesis
    using guarded gone closed by (simp add: on_tool_end_eq)
qed

theorem on_tool_end_has_no_tracer_guard_witness:
  "tracer tracing_off = None
 \<and> fmlookup (span_map one_span_world) 7 = Some 0
 \<and> on_tool_start tracing_off [] ''2+2'' 7 None one_span_world = (None, one_span_world)
 \<and> on_llm_end tracing_off response42 7 one_span_world = (None, one_span_world)
 \<and> fst (on_tool_end tracing_off ''4'' 7 one_span_world) = None
 \<and> fmlookup (span_map (snd (on_tool_end tracing_off ''4'' 7 one_span_world))) 7 = None
 \<and> ended (spans (snd (on_tool_end tracing_off ''4'' 7 one_span_world)) 0)
 \<and> events (spans (snd (on_tool_end tracing_off ''4'' 7 one_span_world)) 0)
      = [(''output'', [(''data'', VStr ''4'')])]"
proof -
  have t: "tracer tracing_off = None" by (simp add: tracing_off_def)
  have h: "fmlookup (span_map one_span_world) 7 = Some 0" by (simp add: one_span_world_def)
  have e: "events (spans one_span_world 0) = []"
    by (simp add: one_span_world_def empty_world_def blank_span_def)
  note a = on_tool_end_has_no_tracer_guard
             [of tracing_off "[]" "[]" 7 None one_span_world response42 "[]" "[]"
                 "\<lparr>tool = [], tool_input = PNone, action_log = []\<rparr>" "''2+2''" "''4''"]
  show ?thesis
    using a t h e by simp
qed

subsection \<open>Token accounting before tracing\<close>

lemma on_llm_end_success:
  assumes "tracer self = Some tr"
    and "fmlookup (span_map w) rid = Some r"
    and "token_usage_of response = Inr tu"
    and "output_texts response = Inr texts"
  shows "fst (on_llm_end self response rid w) = None
       \<and> tracing_log (snd (on_llm_end self response rid w))
            = tracing_log w @
              [LogInfo \<lparr>trace = trace_id (span_ctx (spans w r)), span = span_id (span_ctx (spans w r)),
                        action = ''on_llm_end'', prompts = None, outputs = texts,
                        tokens = (if total_tokens self \<noteq> 0
                                  then Some (py_round_int (total_tokens self) 3) else None),
                        cost = (if total_cost self \<noteq> 0
                                then Some (py_round (total_cost self) 3) else None)\<rparr>]
       \<and> span_map (snd (on_llm_end self response rid w)) = fmdrop rid (span_map w)"
  using assms
  by (simp add: on_llm_end_def proc_defs current_span_def
        set_attributes_Some get_span_context_def end_span_def span_end_def logger_info_def
        add_event_def upd_span_def)

text \<open>
  C5, as amended. Take a model-call-end event handled by the OpenAI-backed adapter, with
  the tracer set, a span registered for the run, a response whose token usage can be read
  and whose output text can be built, and a token-accounting handler that returns
  normally. Then the accounting handler's counters are updated first, and the tracing end
  logic that runs next logs one Trace Info record built from the updated counters: its
  token count is \<^verbatim>\<open>round(total_tokens, 3)\<close> when the cumulative count is not zero and null
  when it is zero, its cost is the cumulative cost rounded to 3 decimals when not zero and
  null when it is zero. After an event that reports 42 total tokens to a new handler, the
  logged token count is 42.
\<close>

theorem openai_end_logs_updated_counters:
  assumes "tracer self = Some tr"
    and "fmlookup (span_map w) rid = Some r"
    and "token_usage_of response = Inr tu"
    and "output_texts response = Inr texts"
    and "base response (total_tokens self, total_cost self) = (None, (tk, cs))"
  shows "fst (OpenAITracing_on_llm_end base self response rid w) = None
       \<and> fst (snd (OpenAITracing_on_llm_end base self response rid w))
            = self\<lparr>total_tokens := tk, total_cost := cs\<rparr>
       \<and> tracing_log (snd (snd (OpenAITracing_on_llm_end base self response rid w)))
            = tracing_log w @
              [LogInfo \<lparr>trace = trace_id (span_ctx (spans w r)), span = span_id (span_ctx (spans w r)),
                        action = ''on_llm_end'', prompts = None, outputs = texts,
                        tokens = (if tk \<noteq> 0 then Some (py_round_int tk 3) else None),
                        cost = (if cs \<noteq> 0 then Some (py_round cs 3) else None)\<rparr>]
       \<and> span_map (snd (snd (OpenAITracing_on_llm_end base self response rid w)))
            = fmdrop rid (span_map w)"
proof -
  let ?self' = "self\<lparr>total_tokens := tk, total_cost := cs\<rparr>"
  have t': "tracer ?self' = Some tr" using assms(1) by simp
  note m = on_llm_end_success [OF t' assms(2) assms(3) assms(4)]
  have run: "OpenAITracing_on_llm_end base self response rid w
               = (fst (on_llm_end ?self' response rid w), ?self',
                  snd (on_llm_end ?self' response rid w))"
    using assms(5) by (simp add: OpenAITracing_on_llm_end_def split: prod.splits)
  show ?thesis
    using m by (simp add: run)
qed

theorem openai_end_logs_updated_counters_witness:
  "tracer tracing_on = Some (Tracer ''lcserve'')
 \<and> fmlookup (span_map one_span_world) 7 = Some 0
 \<and> token_usage_of response42 = Inr [(''total_tokens'', 42)]
 \<and> output_texts response42 = Inr ''hello''
 \<and> OpenAICallbackHandler_on_llm_end (\<lambda>_. 21 / 2000) response42
       (total_tokens tracing_on, total_cost tracing_on) = (None, (42, 21 / 2000))
 \<and> total_tokens (fst (snd (OpenAITracing_on_llm_end
        (OpenAICallbackHandler_on_llm_end (\<lambda>_. 21 / 2000)) tracing_on response42 7 one_span_world))) = 42
 \<and> tracing_log (snd (snd (OpenAITracing_on_llm_end
        (OpenAICallbackHandler_on_llm_end (\<lambda>_. 21 / 2000)) tracing_on response42 7 one_span_world)))
      = [LogInfo \<lparr>trace = 0, span = 0, action = ''on_llm_end'', prompts = None,
                  outputs = ''hello'', tokens = Some 42, cost = Some (1 / 100)\<rparr>]"
proof -
  have t: "tracer tracing_on = Some (Tracer ''lcserve'')" by (simp add: tracing_on_def)
  have h: "fmlookup (span_map one_span_world) 7 = Some 0" by (simp add: one_span_world_def)
  have u: "token_usage_of response42 = Inr [(''total_tokens'', 42)]"
    by (simp add: token_usage_of_def response42_def)
  have x: "output_texts response42 = Inr ''hello''"
    by (simp add: output_texts_def response42_def py_join_def)
  have b: "OpenAICallbackHandler_on_llm_end (\<lambda>_. 21 / 2000) response42
             (total_tokens tracing_on, total_cost tracing_on) = (None, (42, 21 / 2000))"
    by (simp add: OpenAICallbackHandler_on_llm_end_def response42_def tracing_on_def)
  have rd: "py_round (21 / 2000) 3 = 1 / 100" by code_simp
  have c: "span_ctx (spans one_span_world 0) = \<lparr>trace_id = 0, span_id = 0\<rparr>"
    by (simp add: one_span_world_def empty_world_def blank_span_def)
  have l: "tracing_log one_span_world = []" by (simp add: one_span_world_def empty_world_def)
  note a = openai_end_logs_updated_counters
             [where base = "OpenAICallbackHandler_on_llm_end (\<lambda>_. 21 / 2000)", OF t h u x b]
  show ?thesis
    using a t h u x b by (simp add: rd c l py_round_int_def)
qed

text \<open>
  C5 as stated fails: with the tracer unset the counters are updated and no record is
  logged at all; and with the tracer set, a cumulative cost of zero is logged as null, so
  the record does not include that counter.
\<close>

theorem openai_end_log_can_omit_counters:
  "total_tokens (fst (snd (OpenAITracing_on_llm_end
        (OpenAICallbackHandler_on_llm_end (\<lambda>_. 0)) tracing_off response42 7 one_span_world))) = 42
 \<and> tracing_log (snd (snd (OpenAITracing_on_llm_end
        (OpenAICallbackHandler_on_llm_end (\<lambda>_. 0)) tracing_off response42 7 one_span_world))) = []
 \<and> total_cost (fst (snd (OpenAITracing_on_llm_end
        (OpenAICallbackHandler_on_llm_end (\<lambda>_. 0)) tracing_on response42 7 one_span_world))) = 0
 \<and> tracing_log (snd (snd (OpenAITracing_on_llm_end
        (OpenAICallbackHandler_on_llm_end (\<lambda>_. 0)) tracing_on response42 7 one_span_world)))
      = [LogInfo \<lparr>trace = 0, span = 0, action = ''on_llm_end'', prompts = None,
                  outputs = ''hello'', tokens = Some 42, cost = None\<rparr>]"
proof -
  have off: "OpenAITracing_on_llm_end (OpenAICallbackHandler_on_llm_end (\<lambda>_. 0)) tracing_off
               response42 7 one_span_world
             = (None, tracing_off\<lparr>total_tokens := 42, total_cost := 0\<rparr>, one_span_world)"
    by (simp add: OpenAITracing_on_llm_end_def OpenAICallbackHandler_on_llm_end_def response42_def
          tracing_off_def on_llm_end_def)
  have l: "tracing_log one_span_world = []" by (simp add: one_span_world_def empty_world_def)
  have t: "tracer tracing_on = Some (Tracer ''lcserve'')" by (simp add: tracing_on_def)
  have h: "fmlookup (span_map one_span_world) 7 = Some 0" by (simp add: one_span_world_def)
  have u: "token_usage_of response42 = Inr [(''total_tokens'', 42)]"
    by (simp add: token_usage_of_def response42_def)
  have x: "output_texts response42 = Inr ''hello''"
    by (simp add: output_texts_def response42_def py_join_def)
  have t': "tracer (tracing_on\<lparr>total_tokens := 42, total_cost := 0\<rparr>) = Some (Tracer ''lcserve'')"
    by (simp add: tracing_on_def)
  have c: "span_ctx (spans one_span_world 0) = \<lparr>trace_id = 0, span_id = 0\<rparr>"
    by (simp add: one_span_world_def empty_world_def blank_span_def)
  have on: "tracing_log (snd (on_llm_end (tracing_on\<lparr>total_tokens := 42, total_cost := 0\<rparr>)
                                response42 7 one_span_world))
            = [LogInfo \<lparr>trace = 0, span = 0, action = ''on_llm_end'', prompts = None,
                        outputs = ''hello'', tokens = Some 42, cost = None\<rparr>]"
    using on_llm_end_success [OF t' h u x] by (simp add: l c py_round_int_def)
  have onr: "OpenAITracing_on_llm_end (OpenAICallbackHandler_on_llm_end (\<lambda>_. 0)) tracing_on
               response42 7 one_span_world
             = (fst (on_llm_end (tracing_on\<lparr>total_tokens := 42, total_cost := 0\<rparr>) response42 7
                       one_span_world),
                tracing_on\<lparr>total_tokens := 42, total_cost := 0\<rparr>,
                snd (on_llm_end (tracing_on\<lparr>total_tokens := 42, total_cost := 0\<rparr>) response42 7
                       one_span_world))"
    by (simp add: OpenAITracing_on_llm_end_def OpenAICallbackHandler_on_llm_end_def response42_def
          tracing_on_def split: prod.splits)
  show ?thesis
    by (simp add: off l onr on)
qed

subsection \<open>The asynchronous adapter\<close>

text \<open>
  C7. For each of the seven lifecycle events and all arguments, awaiting the coroutine
  that the asynchronous adapter's handler returns has exactly the outcome and the effect
  on the world (registry, spans, log) of calling the synchronous handler.
\<close>

theorem async_handlers_delegate:
  "await (Async_on_llm_start self ser ps rid prid) w = on_llm_start self ser ps rid prid w
 \<and> await (Async_on_llm_end self response rid) w = on_llm_end self response rid w
 \<and> await (Async_on_chain_start self ser inputs rid prid) w = on_chain_start self ser inputs rid prid w
 \<and> await (Async_on_chain_end self outs rid prid) w = on_chain_end self outs rid prid w
 \<and> await (Async_on_agent_action self act rid prid) w = on_agent_action self act rid prid w
 \<and> await (Async_on_tool_start self ser input_str rid prid) w = on_tool_start self ser input_str rid prid w
 \<and> await (Async_on_tool_end self output rid) w = on_tool_end self output rid w"
  by (simp add: Async_on_llm_start_def Async_on_llm_end_def Async_on_chain_start_def
        Async_on_chain_end_def Async_on_agent_action_def Async_on_tool_start_def
        Async_on_tool_end_def)

section \<open>Properties of the streaming handler and of the interception scope\<close>

subsection \<open>Restoring the builtins\<close>

lemma enter_both:
  assumes "wrap_print (wrapper s)" and "wrap_input (wrapper s)"
  shows "BuiltinsWrapper_enter s
      = \<lparr>builtins_module = (builtins_module s)
           \<lparr>builtins_print := PrintWrapper (bw_loop (wrapper s)) (bw_websocket (wrapper s))
                                (bw_output_model (wrapper s)),
            builtins_input := InputWrapper (bw_loop (wrapper s)) (bw_websocket (wrapper s))\<rparr>,
         wrapper = (wrapper s)
           \<lparr>saved_print := Some (builtins_print (builtins_module s)),
            saved_input := Some (builtins_input (builtins_module s))\<rparr>\<rparr>"
  using assms by (simp add: BuiltinsWrapper_enter_def Let_def)

lemma exit_both:
  assumes "wrap_print (wrapper s)" and "wrap_input (wrapper s)"
    and "saved_print (wrapper s) = Some f" and "saved_input (wrapper s) = Some g"
  shows "BuiltinsWrapper_exit s
      = (None, s\<lparr>builtins_module := (builtins_module s)\<lparr>builtins_print := f, builtins_input := g\<rparr>\<rparr>)"
  using assms by (simp add: BuiltinsWrapper_exit_def then_do_def)

text \<open>
  C3, as amended. Take a run of the interception scope with print-wrapping and
  input-wrapping enabled whose body leaves the wrapper object's two flags and its two
  saved bindings as \<^verbatim>\<open>__enter__\<close> set them; a body that never touches the wrapper object
  is such a body, whatever it does to the builtins. Then inside the scope \<^verbatim>\<open>print\<close> and
  \<^verbatim>\<open>input\<close> are bound to the two wrappers; the scope ends as its body ended (normally, or
  with the body's exception); and on either path \<^verbatim>\<open>print\<close> and \<^verbatim>\<open>input\<close> are afterwards
  bound to what they were bound to when the scope was entered, also when the body rebinds
  them itself.
\<close>

theorem builtins_restored_on_every_exit:
  assumes "wrap_print (wrapper s)" and "wrap_input (wrapper s)"
    and "wrap_print (wrapper (snd (body (BuiltinsWrapper_enter s))))"
    and "wrap_input (wrapper (snd (body (BuiltinsWrapper_enter s))))"
    and "saved_print (wrapper (snd (body (BuiltinsWrapper_enter s))))
           = saved_print (wrapper (BuiltinsWrapper_enter s))"
    and "saved_input (wrapper (snd (body (BuiltinsWrapper_enter s))))
           = saved_input (wrapper (BuiltinsWrapper_enter s))"
  shows "builtins_module (BuiltinsWrapper_enter s)
           = (builtins_module s)
               \<lparr>builtins_print := PrintWrapper (bw_loop (wrapper s)) (bw_websocket (wrapper s))
                                    (bw_output_model (wrapper s)),
                builtins_input := InputWrapper (bw_loop (wrapper s)) (bw_websocket (wrapper s))\<rparr>
       \<and> fst (with_BuiltinsWrapper body s) = fst (body (BuiltinsWrapper_enter s))
       \<and> builtins_print (builtins_module (snd (with_BuiltinsWrapper body s)))
           = builtins_print (builtins_module s)
       \<and> builtins_input (builtins_module (snd (with_BuiltinsWrapper body s)))
           = builtins_input (builtins_module s)"
proof -
  note enter = enter_both [OF assms(1) assms(2)]
  obtain r s2 where body: "body (BuiltinsWrapper_enter s) = (r, s2)"
    by (cases "body (BuiltinsWrapper_enter s)")
  have sp0: "saved_print (wrapper s2) = saved_print (wrapper (BuiltinsWrapper_enter s))"
    and si0: "saved_input (wrapper s2) = saved_input (wrapper (BuiltinsWrapper_enter s))"
    using assms(5) assms(6) by (simp_all add: body)
  have sp: "saved_print (wrapper s2) = Some (builtins_print (builtins_module s))"
    unfolding sp0 by (simp add: enter)
  have si: "saved_input (wrapper s2) = Some (builtins_input (builtins_module s))"
    unfolding si0 by (simp add: enter)
  have wp: "wrap_print (wrapper s2)" and wi: "wrap_input (wrapper s2)"
    using assms(3) assms(4) by (simp_all add: body)
  note exit = exit_both [OF wp wi sp si]
  have run: "with_BuiltinsWrapper body s
      = (r, s2\<lparr>builtins_module := (builtins_module s2)
                  \<lparr>builtins_print := builtins_print (builtins_module s),
                   builtins_input := builtins_input (builtins_module s)\<rparr>\<rparr>)"
    by (simp add: with_BuiltinsWrapper_def body exit)
  show ?thesis
    by (simp add: run body) (simp add: enter)
qed

theorem builtins_restored_on_every_exit_witness:
  "wrap_print (wrapper fresh_session) \<and> wrap_input (wrapper fresh_session)
 \<and> wrapper (snd (raising_body (BuiltinsWrapper_enter fresh_session)))
     = wrapper (BuiltinsWrapper_enter fresh_session)
 \<and> builtins_print (builtins_module (snd (raising_body (BuiltinsWrapper_enter fresh_session))))
     = Function ''patched''
 \<and> fst (with_BuiltinsWrapper raising_body fresh_session) = Some (OtherError ''boom'')
 \<and> builtins_module (snd (with_BuiltinsWrapper raising_body fresh_session)) = fresh_builtins
 \<and> fst (with_BuiltinsWrapper pass_body fresh_session) = None
 \<and> builtins_module (snd (with_BuiltinsWrapper pass_body fresh_session)) = fresh_builtins"
proof -
  have p: "wrap_print (wrapper fresh_session)" and i: "wrap_input (wrapper fresh_session)"
    by (simp_all add: fresh_session_def both_wrapped_def)
  have rw: "wrapper (snd (raising_body s)) = wrapper s" for s
    by (simp add: raising_body_def)
  have pw: "wrapper (snd (pass_body s)) = wrapper s" for s
    by (simp add: pass_body_def)
  have e: "wrap_print (wrapper (BuiltinsWrapper_enter fresh_session))"
          "wrap_input (wrapper (BuiltinsWrapper_enter fresh_session))"
    using p i by (simp_all add: enter_both [OF p i])
  have a: "fst (with_BuiltinsWrapper raising_body fresh_session)
             = fst (raising_body (BuiltinsWrapper_enter fresh_session))
         \<and> builtins_print (builtins_module (snd (with_BuiltinsWrapper raising_body fresh_session)))
             = builtins_print (builtins_module fresh_session)
         \<and> builtins_input (builtins_module (snd (with_BuiltinsWrapper raising_body fresh_session)))
             = builtins_input (builtins_module fresh_session)"
    using builtins_restored_on_every_exit [of fresh_session raising_body] p i e by (simp add: rw)
  have b: "fst (with_BuiltinsWrapper pass_body fresh_session)
             = fst (pass_body (BuiltinsWrapper_enter fresh_session))
         \<and> builtins_print (builtins_module (snd (with_BuiltinsWrapper pass_body fresh_session)))
             = builtins_print (builtins_module fresh_session)
         \<and> builtins_input (builtins_module (snd (with_BuiltinsWrapper pass_body fresh_session)))
             = builtins_input (builtins_module fresh_session)"
    using builtins_restored_on_every_exit [of fresh_session pass_body] p i e by (simp add: pw)
  have eq: "builtins_print x = builtins_print (builtins_module fresh_session)
              \<Longrightarrow> builtins_input x = builtins_input (builtins_module fresh_session)
              \<Longrightarrow> x = fresh_builtins" for x
    by (simp add: fresh_session_def)
  have m1: "builtins_module (snd (with_BuiltinsWrapper raising_body fresh_session)) = fresh_builtins"
    using a by (intro eq) simp_all
  have m2: "builtins_module (snd (with_BuiltinsWrapper pass_body fresh_session)) = fresh_builtins"
    using b by (intro eq) simp_all
  show ?thesis
    using a b p i m1 m2 by (simp add: rw) (simp add: raising_body_def pass_body_def)
qed

text \<open>
  C3 as stated fails: \<^verbatim>\<open>__enter__\<close> saves whatever is bound at that moment into the
  wrapper object, so when the body enters the same wrapper again the saved originals are
  overwritten with the first wrappers, both exits rebind those, and \<^verbatim>\<open>print\<close> and
  \<^verbatim>\<open>input\<close> stay bound to wrapper objects after the outer scope has ended.
\<close>

theorem reentry_leaves_wrappers_bound:
  "fst (with_BuiltinsWrapper (with_BuiltinsWrapper pass_body) fresh_session) = None
 \<and> builtins_print (builtins_module fresh_session) = Function ''print''
 \<and> builtins_input (builtins_module fresh_session) = Function ''input''
 \<and> builtins_print (builtins_module
      (snd (with_BuiltinsWrapper (with_BuiltinsWrapper pass_body) fresh_session))) = PrintWrapper 1 2 3
 \<and> builtins_input (builtins_module
      (snd (with_BuiltinsWrapper (with_BuiltinsWrapper pass_body) fresh_session))) = InputWrapper 1 2"
  by (simp add: with_BuiltinsWrapper_def BuiltinsWrapper_enter_def BuiltinsWrapper_exit_def
        then_do_def pass_body_def fresh_session_def fresh_builtins_def both_wrapped_def Let_def)

subsection \<open>Tokens the output model rejects\<close>

text \<open>
  C4. When the output model rejects a token or a text chunk with a validation error,
  \<^verbatim>\<open>on_llm_new_token\<close> and \<^verbatim>\<open>on_text\<close> do exactly what sending the message
  \<^verbatim>\<open>{"result": token, "error": ""}\<close> on the WebSocket does: the message with that token
  as its result and an empty error is sent, and the validation error does not reach the
  caller.
\<close>

theorem rejected_token_is_still_sent:
  assumes "output_model self [(''result'', PStr token), (''error'', PStr [])] = Inl ValidationError"
  shows "await (on_llm_new_token self token) ws
           = send_json self [(''result'', PStr token), (''error'', PStr [])] ws
       \<and> await (on_text self token) ws
           = send_json self [(''result'', PStr token), (''error'', PStr [])] ws"
  using assms by (simp add: on_llm_new_token_def on_text_def)

theorem rejected_token_is_still_sent_witness:
  "output_model \<lparr>send_json = recording_send, output_model = digits_model\<rparr>
      [(''result'', PStr ''abc''), (''error'', PStr [])] = Inl ValidationError
 \<and> await (on_llm_new_token \<lparr>send_json = recording_send, output_model = digits_model\<rparr> ''abc'') []
     = (None, [[(''result'', PStr ''abc''), (''error'', PStr [])]])
 \<and> await (on_text \<lparr>send_json = recording_send, output_model = digits_model\<rparr> ''abc'') []
     = (None, [[(''result'', PStr ''abc''), (''error'', PStr [])]])"
proof -
  have h: "output_model \<lparr>send_json = recording_send, output_model = digits_model\<rparr>
      [(''result'', PStr ''abc''), (''error'', PStr [])] = Inl ValidationError"
    by (simp add: digits_model_def)
  note a = rejected_token_is_still_sent [OF h, of "[]"]
  show ?thesis
    using a h by (simp add: recording_send_def)
qed

section \<open>Properties of the command line\<close>

subsection \<open>The default phase filter of \<^verbatim>\<open>list\<close>\<close>

text \<open>
  C9. When \<^verbatim>\<open>list\<close> is invoked without \<^verbatim>\<open>--phase\<close>, the phase passed to the listing
  operation is the string \<^verbatim>\<open>Serving,Failed,Starting,Updating,Paused\<close>: split at the commas
  it is exactly these five values. The last conjunct is the same fact for any string
  values of the five enumeration members.
\<close>

theorem list_default_phase_filter:
  "await (list_command Phase_value list_apps None nm) p
     = list_apps ''Serving,Failed,Starting,Updating,Paused'' nm p
 \<and> split_commas [] (phase_option_default Phase_value)
     = [''Serving'', ''Failed'', ''Starting'', ''Updating'', ''Paused'']
 \<and> await (list_command pv list_apps None nm) p
     = list_apps (join_str '','' [pv Serving, pv Failed, pv Starting, pv Updating, pv Paused]) nm p"
  by (cases nm) (simp_all add: list_command_def click_option_def phase_option_default_def default_phases_def)

subsection \<open>An instance tier that is not recognized\<close>

lemma sublist_in_message:
  "sublist inst (invalid_instance_message inst) \<and> sublist docs_pointer (invalid_instance_message inst)"
proof -
  have a: "invalid_instance_message inst
             = (''Invalid instance '' @ [CHR 0x27]) @ inst
               @ ([CHR 0x27] @ '' found in config file'' @ [CHR 0x27] @ '', please refer to ''
                  @ docs_pointer @ '' for instance definition.'')"
    by (simp add: invalid_instance_message_def)
  have b: "invalid_instance_message inst
             = (''Invalid instance '' @ [CHR 0x27] @ inst @ [CHR 0x27] @ '' found in config file''
                 @ [CHR 0x27] @ '', please refer to '') @ docs_pointer
               @ '' for instance definition.''"
    by (simp add: invalid_instance_message_def)
  have "sublist inst (invalid_instance_message inst)"
    unfolding a by (rule sublist_appendI)
  moreover have "sublist docs_pointer (invalid_instance_message inst)"
    unfolding b by (rule sublist_appendI)
  ultimately show ?thesis by simp
qed

text \<open>
  C6. For a Deployment Config file, given by a non-empty \<^verbatim>\<open>--config\<close> value, whose
  document names an instance tier outside the recognized set: the validator raises the
  invalid-instance condition carrying a tier of the document that is not recognized (the
  first such one), and the callback turns it into a parameter error whose message holds
  that tier name and the documentation pointer. A \<^verbatim>\<open>--config\<close> option with no value (not
  given, or empty) makes the callback return \<^verbatim>\<open>None\<close> without calling the validator,
  whatever the validator is.
\<close>

theorem invalid_instance_becomes_bad_parameter:
  assumes "load path = Inr cfg"
    and "path \<noteq> []"
    and "i \<in> set (instances cfg)"
    and "i \<notin> set tiers"
  shows "(let inst = hd (filter (\<lambda>i. i \<notin> set tiers) (instances cfg))
          in inst \<in> set (instances cfg) \<and> inst \<notin> set tiers
           \<and> validate_jcloud_config tiers load path = Some (InvalidInstanceError inst)
           \<and> validate_jcloud_config_callback (validate_jcloud_config tiers load) (Some path)
               = Inl (BadParameter (invalid_instance_message inst))
           \<and> sublist inst (invalid_instance_message inst)
           \<and> sublist docs_pointer (invalid_instance_message inst))
       \<and> validate_jcloud_config_callback validate None = Inr None
       \<and> validate_jcloud_config_callback validate (Some []) = Inr None"
proof -
  let ?bad = "filter (\<lambda>i. i \<notin> set tiers) (instances cfg)"
  have "i \<in> set ?bad" using assms(3,4) by simp
  then obtain inst rest where bad: "?bad = inst # rest" by (cases ?bad) auto
  have "inst \<in> set ?bad" by (simp add: bad)
  then have mem: "inst \<in> set (instances cfg)" and out: "inst \<notin> set tiers" by simp_all
  have v: "validate_jcloud_config tiers load path = Some (InvalidInstanceError inst)"
    by (simp add: validate_jcloud_config_def assms(1) bad)
  have c: "validate_jcloud_config_callback (validate_jcloud_config tiers load) (Some path)
             = Inl (BadParameter (invalid_instance_message inst))"
    using assms(2) by (simp add: validate_jcloud_config_callback_def v)
  have n: "validate_jcloud_config_callback validate None = Inr None
         \<and> validate_jcloud_config_callback validate (Some []) = Inr None"
    by (simp add: validate_jcloud_config_callback_def)
  show ?thesis
    using mem out v c n sublist_in_message [of inst] by (simp add: Let_def bad)
qed

theorem invalid_instance_becomes_bad_parameter_witness:
  "example_load ''jcloud.yml'' = Inr \<lparr>instances = [''C1'', ''X9''], autoscale_mins = [YInt (- 1)]\<rparr>
 \<and> ''jcloud.yml'' \<noteq> []
 \<and> ''X9'' \<in> set [''C1'', ''X9''] \<and> ''X9'' \<notin> set [''C1'', ''C2'']
 \<and> validate_jcloud_config [''C1'', ''C2''] example_load ''jcloud.yml'' = Some (InvalidInstanceError ''X9'')
 \<and> validate_jcloud_config_callback (validate_jcloud_config [''C1'', ''C2''] example_load)
      (Some ''jcloud.yml'')
     = Inl (BadParameter (''Invalid instance '' @ [CHR 0x27] @ ''X9'' @ [CHR 0x27]
             @ '' found in config file'' @ [CHR 0x27] @ '', please refer to ''
             @ ''https://docs.jina.ai/concepts/jcloud/configuration/#cpu-tiers''
             @ '' for instance definition.''))
 \<and> validate_jcloud_config_callback (validate_jcloud_config [''C1'', ''C2''] example_load) None
     = Inr None"
proof -
  have l: "example_load ''jcloud.yml''
             = Inr \<lparr>instances = [''C1'', ''X9''], autoscale_mins = [YInt (- 1)]\<rparr>"
    by (simp add: example_load_def)
  have p: "''jcloud.yml'' \<noteq> []" by simp
  have m: "''X9'' \<in> set (instances \<lparr>instances = [''C1'', ''X9''], autoscale_mins = [YInt (- 1)]\<rparr>)"
    by simp
  have o: "''X9'' \<notin> set [''C1'', ''C2'']" by simp
  note a = invalid_instance_becomes_bad_parameter
             [where load = example_load
                and validate = "validate_jcloud_config [''C1'', ''C2''] example_load", OF l p m o]
  show ?thesis
    using a l by (simp add: Let_def invalid_instance_message_def docs_pointer_def)
qed

subsection \<open>The order of the deploy pipeline\<close>

lemma deploy_timeline_shape:
  "\<exists>new. timeline (snd (await (serve_on_jcloud fm modl name requirements app_id version timeout
                                  platform config verbose) s)) = timeline s @ new
     \<and> ((new = []
          \<and> (\<exists>e. fst (await (serve_on_jcloud fm modl name requirements app_id version timeout
                                platform config verbose) s) = Inl e))
        \<or> (\<exists>tag e. new = [PushBegin tag, PushEnd (Inl e)]
          \<and> fst (await (serve_on_jcloud fm modl name requirements app_id version timeout
                          platform config verbose) s) = Inl e)
        \<or> (\<exists>tag gw ws e. new = [PushBegin tag, PushEnd (Inr (gw, ws))]
          \<and> fst (await (serve_on_jcloud fm modl name requirements app_id version timeout
                          platform config verbose) s) = Inl e)
        \<or> (\<exists>tag gw ws e. new = [PushBegin tag, PushEnd (Inr (gw, ws)),
                                   SubmitBegin (gw @ '':'' @ tag), SubmitEnd (Inl e)]
          \<and> fst (await (serve_on_jcloud fm modl name requirements app_id version timeout
                          platform config verbose) s) = Inl e)
        \<or> (\<exists>tag gw ws aid x e. new = [PushBegin tag, PushEnd (Inr (gw, ws)),
                                   SubmitBegin (gw @ '':'' @ tag), SubmitEnd (Inr (aid, x)),
                                   PollBegin aid, PollEnd (Inl e)]
          \<and> fst (await (serve_on_jcloud fm modl name requirements app_id version timeout
                          platform config verbose) s) = Inl e)
        \<or> (\<exists>tag gw ws aid x. new = [PushBegin tag, PushEnd (Inr (gw, ws)),
                                   SubmitBegin (gw @ '':'' @ tag), SubmitEnd (Inr (aid, x)),
                                   PollBegin aid, PollEnd (Inr ())]
          \<and> fst (await (serve_on_jcloud fm modl name requirements app_id version timeout
                          platform config verbose) s) = Inr aid))"
  by (auto simp: serve_on_jcloud_def and_then_def call_def stage_def split: prod.splits sum.splits)

lemma serve_on_jcloud_success:
  assumes "get_app_dir fm modl (outside s) = (Inr (app, app_dir), p1)"
    and "resolve_jcloud_config fm config app_dir p1 = (Inr config', p2)"
    and "get_random_tag fm p2 = (Inr tag, p3)"
    and "push_app_to_hubble fm
           \<lparr>pa_app = app, pa_app_dir = app_dir, pa_requirements = requirements, pa_tag = tag,
            pa_version = version, pa_platform = platform, pa_verbose = verbose\<rparr> p3
         = (Inr (gw, ws), p4)"
    and "get_flow_dict fm
           \<lparr>fa_module = modl, fa_jcloud = True, fa_port = 8080, fa_name = name,
            fa_timeout = timeout, fa_app_id = app_id, fa_gateway_id = gw @ '':'' @ tag,
            fa_is_websocket = ws, fa_jcloud_config_path = config'\<rparr> p4
         = (Inr f, p5)"
    and "deploy_app_on_jcloud fm f app_id verbose p5 = (Inr (aid, x), p6)"
    and "get_app_status_on_jcloud fm aid p6 = (Inr (), p7)"
  shows "await (serve_on_jcloud fm modl name requirements app_id version timeout platform config
                  verbose) s
         = (Inr aid,
            \<lparr>timeline = timeline s @
               [PushBegin tag, PushEnd (Inr (gw, ws)),
                SubmitBegin (gw @ '':'' @ tag), SubmitEnd (Inr (aid, x)),
                PollBegin aid, PollEnd (Inr ())],
             outside = p7\<rparr>)"
  using assms
  by (simp add: serve_on_jcloud_def and_then_def call_def stage_def)

text \<open>
  C8. In every run of \<^verbatim>\<open>serve_on_jcloud\<close>, whatever the operations of the deployment
  module do, the marks the run adds to the timeline are one of six sequences: nothing (the
  run failed before the push); the push entered and left; then the submission entered and
  left; then the polling entered and left. So the push is over before the submission
  starts, the submission is over before the polling starts, no stage is entered while
  another is open, a later stage never runs when an earlier one raised, and the run
  returns the application identifier only after all three. The gateway identifier of the
  submitted flow is the identifier the push returned, then \<^verbatim>\<open>':'\<close>, then the tag given to
  the push. The second conjunct is the successful run, with the arguments that each
  operation of the module receives.
\<close>

theorem deploy_stages_in_order:
  "(\<exists>new. timeline (snd (await (serve_on_jcloud fm modl name requirements app_id version timeout
                                  platform config verbose) s)) = timeline s @ new
     \<and> ((new = []
          \<and> (\<exists>e. fst (await (serve_on_jcloud fm modl name requirements app_id version timeout
                                platform config verbose) s) = Inl e))
        \<or> (\<exists>tag e. new = [PushBegin tag, PushEnd (Inl e)]
          \<and> fst (await (serve_on_jcloud fm modl name requirements app_id version timeout
                          platform config verbose) s) = Inl e)
        \<or> (\<exists>tag gw ws e. new = [PushBegin tag, PushEnd (Inr (gw, ws))]
          \<and> fst (await (serve_on_jcloud fm modl name requirements app_id version timeout
                          platform config verbose) s) = Inl e)
        \<or> (\<exists>tag gw ws e. new = [PushBegin tag, PushEnd (Inr (gw, ws)),
                                   SubmitBegin (gw @ '':'' @ tag), SubmitEnd (Inl e)]
          \<and> fst (await (serve_on_jcloud fm modl name requirements app_id version timeout
                          platform config verbose) s) = Inl e)
        \<or> (\<exists>tag gw ws aid x e. new = [PushBegin tag, PushEnd (Inr (gw, ws)),
                                   SubmitBegin (gw @ '':'' @ tag), SubmitEnd (Inr (aid, x)),
                                   PollBegin aid, PollEnd (Inl e)]
          \<and> fst (await (serve_on_jcloud fm modl name requirements app_id version timeout
                          platform config verbose) s) = Inl e)
        \<or> (\<exists>tag gw ws aid x. new = [PushBegin tag, PushEnd (Inr (gw, ws)),
                                   SubmitBegin (gw @ '':'' @ tag), SubmitEnd (Inr (aid, x)),
                                   PollBegin aid, PollEnd (Inr ())]
          \<and> fst (await (serve_on_jcloud fm modl name requirements app_id version timeout
                          platform config verbose) s) = Inr aid)))
 \<and> (get_app_dir fm modl (outside s) = (Inr (app, app_dir), p1)
    \<and> resolve_jcloud_config fm config app_dir p1 = (Inr config', p2)
    \<and> get_random_tag fm p2 = (Inr tag, p3)
    \<and> push_app_to_hubble fm
           \<lparr>pa_app = app, pa_app_dir = app_dir, pa_requirements = requirements, pa_tag = tag,
            pa_version = version, pa_platform = platform, pa_verbose = verbose\<rparr> p3
         = (Inr (gw, ws), p4)
    \<and> get_flow_dict fm
           \<lparr>fa_module = modl, fa_jcloud = True, fa_port = 8080, fa_name = name,
            fa_timeout = timeout, fa_app_id = app_id, fa_gateway_id = gw @ '':'' @ tag,
            fa_is_websocket = ws, fa_jcloud_config_path = config'\<rparr> p4
         = (Inr f, p5)
    \<and> deploy_app_on_jcloud fm f app_id verbose p5 = (Inr (aid, x), p6)
    \<and> get_app_status_on_jcloud fm aid p6 = (Inr (), p7)
    \<longrightarrow> await (serve_on_jcloud fm modl name requirements app_id version timeout platform config
                  verbose) s
         = (Inr aid,
            \<lparr>timeline = timeline s @
               [PushBegin tag, PushEnd (Inr (gw, ws)),
                SubmitBegin (gw @ '':'' @ tag), SubmitEnd (Inr (aid, x)),
                PollBegin aid, PollEnd (Inr ())],
             outside = p7\<rparr>))"
  using deploy_timeline_shape [of fm modl name requirements app_id version timeout platform config verbose s]
        serve_on_jcloud_success [of fm modl s app app_dir p1 config config' p2 tag p3 requirements
                                    version platform verbose gw ws p4 name timeout app_id f p5 aid x p6 p7]
  by blast

theorem deploy_stages_in_order_witness:
  "await (serve_on_jcloud example_flow_module (Module ''app'') ''langchain'' None None ''latest'' 120
            None None False) \<lparr>timeline = [], outside = 0\<rparr>
     = (Inr ''app-gw:t1'',
        \<lparr>timeline = [PushBegin ''t1'', PushEnd (Inr (''gw'', False)),
                     SubmitBegin ''gw:t1'', SubmitEnd (Inr (''app-gw:t1'', ''endpoint'')),
                     PollBegin ''app-gw:t1'', PollEnd (Inr ())],
         outside = 3\<rparr>)"
proof -
  note a = deploy_stages_in_order
    [where fm = example_flow_module and modl = "Module ''app''" and name = "''langchain''"
       and requirements = None and app_id = None and version = "''latest''" and timeout = 120
       and platform = None and config = None and verbose = False
       and s = "\<lparr>timeline = [], outside = 0\<rparr>"
       and app = "''app''" and app_dir = "''/srv/app''" and ?p1.0 = 0 and config' = None
       and ?p2.0 = 0 and tag = "''t1''" and ?p3.0 = 0 and gw = "''gw''" and ws = False
       and ?p4.0 = 1
       and f = "\<lparr>fa_module = Module ''app'', fa_jcloud = True, fa_port = 8080,
                  fa_name = ''langchain'', fa_timeout = 120, fa_app_id = None,
                  fa_gateway_id = ''gw:t1'', fa_is_websocket = False,
                  fa_jcloud_config_path = None\<rparr>"
       and ?p5.0 = 1 and aid = "''app-gw:t1''" and x = "''endpoint''" and ?p6.0 = 2
       and ?p7.0 = 3]
  have "await (serve_on_jcloud example_flow_module (Module ''app'') ''langchain'' None None ''latest'' 120
            None None False) \<lparr>timeline = [], outside = 0\<rparr>
     = (Inr ''app-gw:t1'',
        \<lparr>timeline = timeline \<lparr>timeline = [], outside = 0::nat\<rparr> @
                    [PushBegin ''t1'', PushEnd (Inr (''gw'', False)),
                     SubmitBegin (''gw'' @ '':'' @ ''t1''), SubmitEnd (Inr (''app-gw:t1'', ''endpoint'')),
                     PollBegin ''app-gw:t1'', PollEnd (Inr ())],
         outside = 3\<rparr>)"
    by (rule mp [OF conjunct2 [OF a]]) (simp add: example_flow_module_def)
  then show ?thesis by simp
qed

end
